theory Spec2Isabelle
  imports Main "HOL-Library.Sublist"
begin

section \<open>Strings and constants of \<^verbatim>\<open>bot.py\<close>\<close>

text \<open>
  A Python \<^verbatim>\<open>str\<close> is a sequence of Unicode code points, and the program only ever
  compares strings for equality, so a string is modelled as the list of its code points.
  \<open>ascii\<close> turns an ASCII literal into such a list.
\<close>

type_synonym pystr = "nat list"

definition ascii :: "string \<Rightarrow> pystr" where
  "ascii s = map of_char s"

text \<open>
  \<^verbatim>\<open>PRIORITIES = [HIGH, MEDIUM, LOW]\<close>: a coloured circle (U+1F534, U+1F7E1, U+1F7E2), a
  space and the Russian word for high, medium and low. The three labels are written out
  as code points.
\<close>

definition HIGH :: pystr where
  "HIGH = [0x1F534, 0x20, 0x412, 0x44B, 0x441, 0x43E, 0x43A, 0x438, 0x439]"

definition MEDIUM :: pystr where
  "MEDIUM = [0x1F7E1, 0x20, 0x421, 0x440, 0x435, 0x434, 0x43D, 0x438, 0x439]"

definition LOW :: pystr where
  "LOW = [0x1F7E2, 0x20, 0x41D, 0x438, 0x437, 0x43A, 0x438, 0x439]"

definition PRIORITIES :: "pystr list" where
  "PRIORITIES = [HIGH, MEDIUM, LOW]"

text \<open>
  The four reminder labels that \<^verbatim>\<open>set_reminder\<close> compares its input with (Russian for
  "in 1 hour", "in 3 hours", "tomorrow", "in a week"), with the \<^verbatim>\<open>timedelta\<close> each one
  stands for, in seconds.
\<close>

definition IN_1_HOUR :: pystr where
  "IN_1_HOUR = [0x427, 0x435, 0x440, 0x435, 0x437, 0x20, 0x31, 0x20, 0x447, 0x430, 0x441]"

definition IN_3_HOURS :: pystr where
  "IN_3_HOURS = [0x427, 0x435, 0x440, 0x435, 0x437, 0x20, 0x33, 0x20, 0x447, 0x430, 0x441, 0x430]"

definition TOMORROW :: pystr where
  "TOMORROW = [0x417, 0x430, 0x432, 0x442, 0x440, 0x430]"

definition IN_A_WEEK :: pystr where
  "IN_A_WEEK = [0x427, 0x435, 0x440, 0x435, 0x437, 0x20, 0x43D, 0x435, 0x434, 0x435, 0x43B, 0x44E]"

definition hours :: "int \<Rightarrow> int" where
  "hours n = n * 3600"

definition days :: "int \<Rightarrow> int" where
  "days n = n * 86400"

definition weeks :: "int \<Rightarrow> int" where
  "weeks n = n * 604800"

section \<open>The task store: class \<^verbatim>\<open>TaskManager\<close>\<close>

text \<open>
  A task is the dictionary built by \<^verbatim>\<open>add_task\<close>. The program reads the key
  \<^verbatim>\<open>'priority'\<close> both with \<^verbatim>\<open>task.get('priority', MEDIUM)\<close> and with
  \<^verbatim>\<open>task['priority']\<close>, so a task loaded from the data file may lack it: the field is
  optional, \<open>None\<close> meaning that the key is absent. \<^verbatim>\<open>'reminder'\<close> holds a timestamp
  string or Python's \<^verbatim>\<open>None\<close>. A timestamp is the string \<^verbatim>\<open>strftime\<close> makes of a
  clock reading.
\<close>

record task =
  t_id :: int
  t_text :: pystr
  t_priority :: "pystr option"
  t_created_at :: pystr
  t_completed :: bool
  t_reminder :: "pystr option"

text \<open>
  \<^verbatim>\<open>self.tasks\<close> maps a user id to \<^verbatim>\<open>{'tasks': [...]}\<close>; that one-key dictionary is
  represented by its list. \<^verbatim>\<open>_save_tasks\<close> dumps the whole mapping to the data file and
  swallows every exception, so what the model keeps of the file is the log of the calls:
  \<open>saves\<close> lists the mappings handed to \<^verbatim>\<open>_save_tasks\<close>, the latest first.
\<close>

record task_manager =
  tasks :: "int \<rightharpoonup> task list"
  saves :: "(int \<rightharpoonup> task list) list"

definition save_tasks :: "task_manager \<Rightarrow> task_manager" where
  "save_tasks tm = tm\<lparr>saves := tasks tm # saves tm\<rparr>"

text \<open>\<^verbatim>\<open>get_user_tasks\<close> returns the user's list and creates the entry when it is missing.\<close>

definition get_user_tasks :: "task_manager \<Rightarrow> int \<Rightarrow> task list \<times> task_manager" where
  "get_user_tasks tm user_id =
     (case tasks tm user_id of
        None \<Rightarrow> ([], tm\<lparr>tasks := (tasks tm)(user_id \<mapsto> [])\<rparr>)
      | Some ts \<Rightarrow> (ts, tm))"

text \<open>The list a user has in the store, an absent user read as the empty list.\<close>

definition user_list :: "task_manager \<Rightarrow> int \<Rightarrow> task list" where
  "user_list tm user_id = (case tasks tm user_id of None \<Rightarrow> [] | Some ts \<Rightarrow> ts)"

text \<open>
  \<^verbatim>\<open>add_task\<close>: \<open>created\<close> is the string \<^verbatim>\<open>datetime.now().strftime(...)\<close> evaluates to
  in the call. The new task is appended, the mapping saved, the task returned.
\<close>

definition add_task ::
  "task_manager \<Rightarrow> pystr \<Rightarrow> int \<Rightarrow> pystr \<Rightarrow> pystr \<Rightarrow> pystr option \<Rightarrow> task \<times> task_manager" where
  "add_task tm created user_id text priority reminder =
     (let tm1 = (if tasks tm user_id = None then tm\<lparr>tasks := (tasks tm)(user_id \<mapsto> [])\<rparr> else tm);
          ts = the (tasks tm1 user_id);
          task = \<lparr>t_id = int (length ts) + 1, t_text = text, t_priority = Some priority,
                  t_created_at = created, t_completed = False, t_reminder = reminder\<rparr>
      in (task, save_tasks (tm1\<lparr>tasks := (tasks tm1)(user_id \<mapsto> ts @ [task])\<rparr>)))"

text \<open>
  \<^verbatim>\<open>complete_task\<close>: the loop stops at the first task with the id, marks it and saves.
  \<open>complete_first\<close> is that loop: the list after it when a task was found, \<open>None\<close> when the
  loop ran to its end.
\<close>

fun complete_first :: "int \<Rightarrow> task list \<Rightarrow> task list option" where
  "complete_first task_id [] = None"
| "complete_first task_id (t # ts) =
     (if t_id t = task_id then Some (t\<lparr>t_completed := True\<rparr> # ts)
      else map_option ((#) t) (complete_first task_id ts))"

definition complete_task :: "task_manager \<Rightarrow> int \<Rightarrow> int \<Rightarrow> bool \<times> task_manager" where
  "complete_task tm user_id task_id =
     (let (ts, tm1) = get_user_tasks tm user_id
      in case complete_first task_id ts of
           Some ts' \<Rightarrow> (True, save_tasks (tm1\<lparr>tasks := (tasks tm1)(user_id \<mapsto> ts')\<rparr>))
         | None \<Rightarrow> (False, tm1))"

text \<open>
  \<^verbatim>\<open>delete_task\<close>: the list comprehension keeps the tasks whose id differs; the new list
  is stored whether or not it is shorter, and saved when it is.
\<close>

definition delete_task :: "task_manager \<Rightarrow> int \<Rightarrow> int \<Rightarrow> bool \<times> task_manager" where
  "delete_task tm user_id task_id =
     (let (ts, tm1) = get_user_tasks tm user_id;
          initial_length = length ts;
          tm2 = tm1\<lparr>tasks := (tasks tm1)(user_id \<mapsto> filter (\<lambda>t. t_id t \<noteq> task_id) ts)\<rparr>
      in if length (the (tasks tm2 user_id)) < initial_length
         then (True, save_tasks tm2) else (False, tm2))"

text \<open>
  \<^verbatim>\<open>get_tasks_by_priority\<close>: \<open>categorized\<close> is a dictionary with the three priorities as
  keys, in the order of \<open>PRIORITIES\<close> (an association list). \<open>categorize\<close> is the loop over
  the tasks.
\<close>

type_synonym buckets = "(pystr \<times> task list) list"

definition bucket_append :: "pystr \<Rightarrow> task \<Rightarrow> buckets \<Rightarrow> buckets" where
  "bucket_append p t c = map (\<lambda>(k, v). if k = p then (k, v @ [t]) else (k, v)) c"

text \<open>\<^verbatim>\<open>task.get('priority', MEDIUM)\<close>\<close>

definition get_priority :: "task \<Rightarrow> pystr" where
  "get_priority t = (case t_priority t of None \<Rightarrow> MEDIUM | Some p \<Rightarrow> p)"

fun categorize :: "task list \<Rightarrow> buckets \<Rightarrow> buckets" where
  "categorize [] c = c"
| "categorize (t # ts) c =
     categorize ts
       (if \<not> t_completed t then
          (let priority = get_priority t
           in if priority \<in> set (map fst c) then bucket_append priority t c else c)
        else c)"

definition get_tasks_by_priority :: "task_manager \<Rightarrow> int \<Rightarrow> buckets \<times> task_manager" where
  "get_tasks_by_priority tm user_id =
     (let (ts, tm1) = get_user_tasks tm user_id
      in (categorize ts (map (\<lambda>p. (p, [])) PRIORITIES), tm1))"

section \<open>The handlers\<close>

text \<open>
  What a handler needs from outside the program: \<^verbatim>\<open>strftime('%Y-%m-%d %H:%M:%S')\<close> and
  the builtin \<^verbatim>\<open>int\<close> (\<open>None\<close> standing for its \<^verbatim>\<open>ValueError\<close>) are parameters, and
  so are the readings of \<^verbatim>\<open>datetime.now()\<close> made while one update is handled:
  \<open>now_reminder\<close> is the reading in \<^verbatim>\<open>set_reminder\<close>, \<open>now_created\<close> the later one in
  \<^verbatim>\<open>add_task\<close>. A \<^verbatim>\<open>datetime\<close> is a number of seconds and adding a \<^verbatim>\<open>timedelta\<close> is
  addition. Replies are assumed to be delivered (\<^verbatim>\<open>reply_text\<close> does not raise).
\<close>

record env =
  strftime :: "int \<Rightarrow> pystr"
  to_int :: "pystr \<Rightarrow> int option"
  now_reminder :: int
  now_created :: int

text \<open>
  \<^verbatim>\<open>context.user_data\<close>: the dictionary of one user, with the four keys the program
  uses. The two flags are only ever stored as \<^verbatim>\<open>True\<close>, so a flag is \<open>True\<close> when its
  key is present.
\<close>

record user_data =
  task_text :: "pystr option"
  task_priority :: "pystr option"
  awaiting_complete :: bool
  awaiting_delete :: bool

definition clear :: user_data where
  "clear = \<lparr>task_text = None, task_priority = None,
            awaiting_complete = False, awaiting_delete = False\<rparr>"

text \<open>\<^verbatim>\<open>CHOOSING_ACTION, ADD_TASK, SET_PRIORITY, SET_REMINDER = range(4)\<close>\<close>

datatype conv_state = CHOOSING_ACTION | ADD_TASK | SET_PRIORITY | SET_REMINDER

datatype error = KeyError

text \<open>
  What a handler returns: a state of the conversation, \<^verbatim>\<open>ConversationHandler.END\<close>,
  Python's \<^verbatim>\<open>None\<close> (a handler without \<^verbatim>\<open>return\<close> value), or an exception.
\<close>

datatype ret = Goto conv_state | End | ReturnNone | Raise error

text \<open>The messages sent, one constructor for each \<^verbatim>\<open>reply_text\<close> of the program.\<close>

datatype reply =
    Welcome | HelpText | AskText | AskPriority | BadPriority | AskReminder
  | Created task "pystr option"
  | NoActiveTasks | TaskList buckets "task list"
  | NothingToComplete | ChooseToComplete "task list"
  | NothingToDelete | ChooseToDelete "task list"
  | SendNumber | BadNumber | Completed int | Deleted int | NotFound int
  | Cancelled | Apology

type_synonym outcome = "reply list \<times> user_data \<times> task_manager \<times> ret"

definition start :: "user_data \<Rightarrow> task_manager \<Rightarrow> outcome" where
  "start ud tm = ([Welcome], ud, tm, End)"

definition help_command :: "user_data \<Rightarrow> task_manager \<Rightarrow> outcome" where
  "help_command ud tm = ([HelpText], ud, tm, ReturnNone)"

definition add_task_start :: "user_data \<Rightarrow> task_manager \<Rightarrow> outcome" where
  "add_task_start ud tm = ([AskText], ud, tm, Goto ADD_TASK)"

definition add_task_text :: "pystr \<Rightarrow> user_data \<Rightarrow> task_manager \<Rightarrow> outcome" where
  "add_task_text text ud tm = ([AskPriority], ud\<lparr>task_text := Some text\<rparr>, tm, Goto SET_PRIORITY)"

definition set_priority :: "pystr \<Rightarrow> user_data \<Rightarrow> task_manager \<Rightarrow> outcome" where
  "set_priority priority ud tm =
     (if priority \<notin> set PRIORITIES then ([BadPriority], ud, tm, Goto SET_PRIORITY)
      else ([AskReminder], ud\<lparr>task_priority := Some priority\<rparr>, tm, Goto SET_REMINDER))"

definition reminder_time :: "env \<Rightarrow> pystr \<Rightarrow> pystr option" where
  "reminder_time e reminder_text =
     (if reminder_text = IN_1_HOUR then Some (strftime e (now_reminder e + hours 1))
      else if reminder_text = IN_3_HOURS then Some (strftime e (now_reminder e + hours 3))
      else if reminder_text = TOMORROW then Some (strftime e (now_reminder e + days 1))
      else if reminder_text = IN_A_WEEK then Some (strftime e (now_reminder e + weeks 1))
      else None)"

text \<open>
  \<^verbatim>\<open>set_reminder\<close>: \<^verbatim>\<open>context.user_data['task_text']\<close> and \<^verbatim>\<open>['task_priority']\<close> raise
  \<^verbatim>\<open>KeyError\<close> on a missing key, before \<^verbatim>\<open>add_task\<close> is called. The reply shows the
  reminder when \<^verbatim>\<open>reminder_time\<close> is truthy (not \<^verbatim>\<open>None\<close>, not empty).
\<close>

definition set_reminder :: "env \<Rightarrow> int \<Rightarrow> pystr \<Rightarrow> user_data \<Rightarrow> task_manager \<Rightarrow> outcome" where
  "set_reminder e user_id reminder_text ud tm =
     (let rt = reminder_time e reminder_text
      in case task_text ud of
           None \<Rightarrow> ([], ud, tm, Raise KeyError)
         | Some text \<Rightarrow>
             (case task_priority ud of
                None \<Rightarrow> ([], ud, tm, Raise KeyError)
              | Some priority \<Rightarrow>
                  (let (task, tm') = add_task tm (strftime e (now_created e)) user_id text priority rt
                   in ([Created task (if rt = Some [] then None else rt)], clear, tm', End))))"

text \<open>
  \<^verbatim>\<open>list_tasks\<close>: the reply shows the non-empty buckets and the last five completed
  tasks.
\<close>

definition list_tasks :: "int \<Rightarrow> user_data \<Rightarrow> task_manager \<Rightarrow> outcome" where
  "list_tasks user_id ud tm =
     (let (tasks_by_priority, tm1) = get_tasks_by_priority tm user_id;
          total_tasks = sum_list (map (\<lambda>(p, ts). length ts) tasks_by_priority)
      in if total_tasks = 0 then ([NoActiveTasks], ud, tm1, ReturnNone)
         else (let (all_tasks, tm2) = get_user_tasks tm1 user_id;
                   completed_tasks = filter t_completed all_tasks
               in ([TaskList (filter (\<lambda>(p, ts). ts \<noteq> []) tasks_by_priority)
                             (drop (length completed_tasks - 5) completed_tasks)],
                   ud, tm2, ReturnNone)))"

text \<open>
  The handlers of \<^verbatim>\<open>/complete\<close> and \<^verbatim>\<open>/delete\<close> (in the source they bear the names of
  the \<^verbatim>\<open>TaskManager\<close> methods). Building the message reads \<^verbatim>\<open>task['priority']\<close> of every
  task shown, which raises \<^verbatim>\<open>KeyError\<close> on a task without the key, before anything is
  sent.
\<close>

definition complete_task_handler :: "int \<Rightarrow> user_data \<Rightarrow> task_manager \<Rightarrow> outcome" where
  "complete_task_handler user_id ud tm =
     (let (ts, tm1) = get_user_tasks tm user_id;
          active_tasks = filter (\<lambda>t. \<not> t_completed t) ts
      in if active_tasks = [] then ([NothingToComplete], ud, tm1, ReturnNone)
         else if list_ex (\<lambda>t. t_priority t = None) active_tasks then ([], ud, tm1, Raise KeyError)
         else ([ChooseToComplete active_tasks, SendNumber],
               ud\<lparr>awaiting_complete := True\<rparr>, tm1, ReturnNone))"

definition delete_task_handler :: "int \<Rightarrow> user_data \<Rightarrow> task_manager \<Rightarrow> outcome" where
  "delete_task_handler user_id ud tm =
     (let (ts, tm1) = get_user_tasks tm user_id
      in if ts = [] then ([NothingToDelete], ud, tm1, ReturnNone)
         else if list_ex (\<lambda>t. t_priority t = None) ts then ([], ud, tm1, Raise KeyError)
         else ([ChooseToDelete ts, SendNumber], ud\<lparr>awaiting_delete := True\<rparr>, tm1, ReturnNone))"

text \<open>
  \<^verbatim>\<open>handle_task_action\<close>: \<^verbatim>\<open>int(text)\<close> first; then the completion flag, and only when
  it is not set the deletion flag. \<^verbatim>\<open>pop\<close> removes the flag that was served.
\<close>

definition handle_task_action :: "env \<Rightarrow> int \<Rightarrow> pystr \<Rightarrow> user_data \<Rightarrow> task_manager \<Rightarrow> outcome" where
  "handle_task_action e user_id text ud tm =
     (case to_int e text of
        None \<Rightarrow> ([BadNumber], ud, tm, ReturnNone)
      | Some task_id \<Rightarrow>
          if awaiting_complete ud then
            (let (ok, tm') = complete_task tm user_id task_id
             in ([if ok then Completed task_id else NotFound task_id],
                 ud\<lparr>awaiting_complete := False\<rparr>, tm', ReturnNone))
          else if awaiting_delete ud then
            (let (ok, tm') = delete_task tm user_id task_id
             in ([if ok then Deleted task_id else NotFound task_id],
                 ud\<lparr>awaiting_delete := False\<rparr>, tm', ReturnNone))
          else ([], ud, tm, ReturnNone))"

definition cancel :: "user_data \<Rightarrow> task_manager \<Rightarrow> outcome" where
  "cancel ud tm = ([Cancelled], clear, tm, End)"

section \<open>Dispatch: the handlers registered in \<^verbatim>\<open>main\<close>\<close>

text \<open>
  An update is a command or a text message that is not a command
  (\<^verbatim>\<open>filters.TEXT & ~filters.COMMAND\<close>). The world is the store, shared by all users, with
  the \<^verbatim>\<open>user_data\<close> and the state of the \<^verbatim>\<open>/add\<close> conversation of the user who
  writes, in one chat; \<open>None\<close> is the state of a user with no conversation open.
\<close>

datatype command = CmdStart | CmdHelp | CmdAdd | CmdList | CmdComplete | CmdDelete | CmdCancel | CmdOther

datatype update = Command command | Text pystr

record world =
  conv :: "conv_state option"
  user_data :: user_data
  task_manager :: task_manager

text \<open>
  A handler that raised is answered by \<^verbatim>\<open>error_handler\<close>; the state of the conversation
  then stays. The state returned by a handler called outside the conversation is ignored.
\<close>

definition error_handler :: "ret \<Rightarrow> reply list" where
  "error_handler r = (case r of Raise x \<Rightarrow> [Apology] | _ \<Rightarrow> [])"

definition in_conversation :: "world \<Rightarrow> outcome \<Rightarrow> reply list \<times> world" where
  "in_conversation w out =
     (case out of (rs, ud', tm', r) \<Rightarrow>
        (rs @ error_handler r,
         \<lparr>conv = (case r of Goto s \<Rightarrow> Some s | End \<Rightarrow> None | _ \<Rightarrow> conv w), user_data = ud', task_manager = tm'\<rparr>))"

definition standalone :: "world \<Rightarrow> outcome \<Rightarrow> reply list \<times> world" where
  "standalone w out =
     (case out of (rs, ud', tm', r) \<Rightarrow> (rs @ error_handler r, \<lparr>conv = conv w, user_data = ud', task_manager = tm'\<rparr>))"

text \<open>
  \<^verbatim>\<open>add_task_conv\<close>, a \<^verbatim>\<open>ConversationHandler\<close> with the default \<^verbatim>\<open>allow_reentry=False\<close>:
  with no conversation open only the entry point \<^verbatim>\<open>/add\<close> is tried; in a conversation
  the handlers of the state, then the fallback \<^verbatim>\<open>/cancel\<close>. \<open>None\<close>: the update is not for
  this handler.
\<close>

fun add_task_conv :: "env \<Rightarrow> int \<Rightarrow> update \<Rightarrow> world \<Rightarrow> (reply list \<times> world) option" where
  "add_task_conv e user_id upd w =
     (case conv w of
        None \<Rightarrow>
          (case upd of
             Command CmdAdd \<Rightarrow> Some (in_conversation w (add_task_start (user_data w) (task_manager w)))
           | _ \<Rightarrow> None)
      | Some s \<Rightarrow>
          (case upd of
             Text text \<Rightarrow>
               (case s of
                  ADD_TASK \<Rightarrow> Some (in_conversation w (add_task_text text (user_data w) (task_manager w)))
                | SET_PRIORITY \<Rightarrow> Some (in_conversation w (set_priority text (user_data w) (task_manager w)))
                | SET_REMINDER \<Rightarrow> Some (in_conversation w (set_reminder e user_id text (user_data w) (task_manager w)))
                | CHOOSING_ACTION \<Rightarrow> None)
           | Command CmdCancel \<Rightarrow> Some (in_conversation w (cancel (user_data w) (task_manager w)))
           | Command c \<Rightarrow> None))"

text \<open>
  The handlers in the order \<^verbatim>\<open>main\<close> adds them, all in one group: the first one that
  accepts the update handles it, and an update that none accepts is dropped.
\<close>

fun process_update :: "env \<Rightarrow> int \<Rightarrow> update \<Rightarrow> world \<Rightarrow> reply list \<times> world" where
  "process_update e user_id upd w =
     (case upd of
        Command CmdStart \<Rightarrow> standalone w (start (user_data w) (task_manager w))
      | Command CmdHelp \<Rightarrow> standalone w (help_command (user_data w) (task_manager w))
      | _ \<Rightarrow>
        (case add_task_conv e user_id upd w of
           Some res \<Rightarrow> res
         | None \<Rightarrow>
             (case upd of
                Command CmdList \<Rightarrow> standalone w (list_tasks user_id (user_data w) (task_manager w))
              | Command CmdComplete \<Rightarrow> standalone w (complete_task_handler user_id (user_data w) (task_manager w))
              | Command CmdDelete \<Rightarrow> standalone w (delete_task_handler user_id (user_data w) (task_manager w))
              | Command CmdCancel \<Rightarrow> standalone w (cancel (user_data w) (task_manager w))
              | Text text \<Rightarrow> standalone w (handle_task_action e user_id text (user_data w) (task_manager w))
              | Command c \<Rightarrow> ([], w))))"

text \<open>A run: the updates of one user, each with the environment it is handled in.\<close>

fun run :: "int \<Rightarrow> (env \<times> update) list \<Rightarrow> world \<Rightarrow> world" where
  "run user_id [] w = w"
| "run user_id ((e, upd) # rest) w = run user_id rest (snd (process_update e user_id upd w))"

section \<open>Concrete instances\<close>

text \<open>
  The theorems below hold for every \<open>strftime\<close> and every \<open>to_int\<close>. To run the model on
  concrete inputs the two are instantiated: \<open>iso_strftime\<close> prints a number of seconds
  since 1970-01-01 00:00:00 as \<^verbatim>\<open>%Y-%m-%d %H:%M:%S\<close> (years 1000 to 9999), and \<open>ascii_int\<close>
  reads an optional sign followed by ASCII digits, the plain numerals among the strings
  that \<^verbatim>\<open>int\<close> accepts (\<^verbatim>\<open>int\<close> also accepts surrounding whitespace, underscores between
  digits and other Unicode digits; \<open>ascii_int\<close> answers \<open>None\<close> there).
\<close>

definition digit :: "int \<Rightarrow> nat" where
  "digit n = 48 + nat (n mod 10)"

definition two_digits :: "int \<Rightarrow> pystr" where
  "two_digits n = [digit (n div 10), digit n]"

definition four_digits :: "int \<Rightarrow> pystr" where
  "four_digits n = [digit (n div 1000), digit (n div 100), digit (n div 10), digit n]"

definition civil_from_days :: "int \<Rightarrow> int \<times> int \<times> int" where
  "civil_from_days z =
     (let doe = (z + 719468) mod 146097;
          yoe = (doe - doe div 1460 + doe div 36524 - doe div 146096) div 365;
          doy = doe - (365 * yoe + yoe div 4 - yoe div 100);
          mp = (5 * doy + 2) div 153;
          d = doy - (153 * mp + 2) div 5 + 1;
          m = (if mp < 10 then mp + 3 else mp - 9);
          y = yoe + ((z + 719468) div 146097) * 400 + (if m \<le> 2 then 1 else 0)
      in (y, m, d))"

definition iso_strftime :: "int \<Rightarrow> pystr" where
  "iso_strftime t =
     (let (y, m, d) = civil_from_days (t div 86400); s = t mod 86400
      in four_digits y @ [45] @ two_digits m @ [45] @ two_digits d @ [32]
         @ two_digits (s div 3600) @ [58] @ two_digits (s mod 3600 div 60) @ [58]
         @ two_digits (s mod 60))"

fun digits_value :: "pystr \<Rightarrow> int \<Rightarrow> int option" where
  "digits_value [] acc = Some acc"
| "digits_value (c # cs) acc =
     (if 48 \<le> c \<and> c \<le> 57 then digits_value cs (acc * 10 + int (c - 48)) else None)"

definition ascii_int :: "pystr \<Rightarrow> int option" where
  "ascii_int s =
     (case s of
        [] \<Rightarrow> None
      | c # cs \<Rightarrow>
          if cs \<noteq> [] \<and> c = 45 then map_option uminus (digits_value cs 0)
          else if cs \<noteq> [] \<and> c = 43 then digits_value cs 0
          else digits_value s 0)"

text \<open>An environment: the clock reads 2024-03-01 10:00:00, and one second later in \<^verbatim>\<open>add_task\<close>.\<close>

definition env0 :: env where
  "env0 = \<lparr>strftime = iso_strftime, to_int = ascii_int,
           now_reminder = 1709287200, now_created = 1709287201\<rparr>"

definition empty_store :: task_manager where
  "empty_store = \<lparr>tasks = Map.empty, saves = []\<rparr>"

text \<open>User 7 adds the tasks A and B to the empty store.\<close>

definition store_AB :: task_manager where
  "store_AB =
     snd (add_task (snd (add_task empty_store (ascii ''2024-03-01 10:00:00'') 7 (ascii ''A'') HIGH None))
            (ascii ''2024-03-01 10:05:00'') 7 (ascii ''B'') LOW None)"

definition task_A :: task where
  "task_A = \<lparr>t_id = 1, t_text = ascii ''A'', t_priority = Some HIGH,
             t_created_at = ascii ''2024-03-01 10:00:00'', t_completed = False, t_reminder = None\<rparr>"

definition task_B :: task where
  "task_B = \<lparr>t_id = 2, t_text = ascii ''B'', t_priority = Some LOW,
             t_created_at = ascii ''2024-03-01 10:05:00'', t_completed = False, t_reminder = None\<rparr>"

definition task_C :: task where
  "task_C = \<lparr>t_id = 2, t_text = ascii ''C'', t_priority = Some MEDIUM,
             t_created_at = ascii ''2024-03-01 10:10:00'', t_completed = False, t_reminder = None\<rparr>"

text \<open>Then user 7 deletes task 1 and adds the task C.\<close>

definition store_BC :: task_manager where
  "store_BC =
     snd (add_task (snd (delete_task store_AB 7 1)) (ascii ''2024-03-01 10:10:00'') 7 (ascii ''C'')
            MEDIUM None)"

text \<open>
  The reading of the sentence about \<^verbatim>\<open>delete_task\<close> in the specification: the first
  task with the id goes, later ones stay.
\<close>

fun delete_first_spec :: "int \<Rightarrow> task list \<Rightarrow> task list" where
  "delete_first_spec task_id [] = []"
| "delete_first_spec task_id (t # ts) =
     (if t_id t = task_id then ts else t # delete_first_spec task_id ts)"

text \<open>A store as a data file may hold it: one task with a priority of its own, one with none.\<close>

definition task_X :: task where
  "task_X = \<lparr>t_id = 1, t_text = ascii ''X'', t_priority = Some (ascii ''urgent''),
             t_created_at = ascii ''2024-03-01 09:00:00'', t_completed = False, t_reminder = None\<rparr>"

definition task_Y :: task where
  "task_Y = \<lparr>t_id = 2, t_text = ascii ''Y'', t_priority = None,
             t_created_at = ascii ''2024-03-01 09:30:00'', t_completed = False, t_reminder = None\<rparr>"

definition store_XY :: task_manager where
  "store_XY = \<lparr>tasks = [7 \<mapsto> [task_X, task_Y]], saves = []\<rparr>"

text \<open>User 7, holding A and B, completes task 1.\<close>

definition store_A_done :: task_manager where
  "store_A_done = snd (complete_task store_AB 7 1)"

text \<open>Session data with a pending action, and a dialogue that waits for the reminder.\<close>

definition awaiting_completion :: user_data where
  "awaiting_completion = clear\<lparr>awaiting_complete := True\<rparr>"

definition awaiting_deletion :: user_data where
  "awaiting_deletion = clear\<lparr>awaiting_delete := True\<rparr>"

definition draft_milk :: user_data where
  "draft_milk = clear\<lparr>task_text := Some (ascii ''Buy milk''), task_priority := Some MEDIUM\<rparr>"

definition world_milk :: world where
  "world_milk = \<lparr>conv = Some SET_REMINDER, user_data = draft_milk, task_manager = empty_store\<rparr>"

definition task_milk :: "pystr option \<Rightarrow> task" where
  "task_milk reminder =
     \<lparr>t_id = 1, t_text = ascii ''Buy milk'', t_priority = Some MEDIUM,
      t_created_at = ascii ''2024-03-01 10:00:01'', t_completed = False, t_reminder = reminder\<rparr>"

text \<open>
  Worlds for the dialogue: nobody has written yet; a draft was left behind although no
  dialogue is open; the user sends \<^verbatim>\<open>/add\<close>, a text and \<^verbatim>\<open>/add\<close> again. And a whole
  dialogue that creates the task "Tea".
\<close>

definition idle_world :: world where
  "idle_world = \<lparr>conv = None, user_data = clear, task_manager = empty_store\<rparr>"

definition stale_world :: world where
  "stale_world = \<lparr>conv = None, user_data = draft_milk, task_manager = empty_store\<rparr>"

definition world_restart :: world where
  "world_restart =
     run 7 [(env0, Command CmdAdd), (env0, Text (ascii ''Buy milk'')), (env0, Command CmdAdd)]
       idle_world"

definition dialogue_tea :: "(env \<times> update) list" where
  "dialogue_tea =
     [(env0, Command CmdAdd), (env0, Text (ascii ''Tea'')), (env0, Text HIGH),
      (env0, Text (ascii ''later''))]"

definition task_tea :: task where
  "task_tea =
     \<lparr>t_id = 1, t_text = ascii ''Tea'', t_priority = Some HIGH,
      t_created_at = ascii ''2024-03-01 10:00:01'', t_completed = False, t_reminder = None\<rparr>"

text \<open>
  Two worlds agree when they have the same store, conversation state and flags, and the
  same draft fields as far as the conversation state says they have been entered. An
  outcome keeps the draft of the session data it was computed from; two outcomes are the
  same but for the draft.
\<close>

definition flags_eq :: "user_data \<Rightarrow> user_data \<Rightarrow> bool" where
  "flags_eq d d' =
     (awaiting_complete d = awaiting_complete d' \<and> awaiting_delete d = awaiting_delete d')"

definition draft_eq :: "conv_state option \<Rightarrow> user_data \<Rightarrow> user_data \<Rightarrow> bool" where
  "draft_eq st d d' =
     ((st = Some SET_PRIORITY \<or> st = Some SET_REMINDER \<longrightarrow> task_text d = task_text d')
      \<and> (st = Some SET_REMINDER \<longrightarrow> task_priority d = task_priority d'))"

definition agree :: "world \<Rightarrow> world \<Rightarrow> bool" where
  "agree w w' =
     (conv w = conv w' \<and> task_manager w = task_manager w'
      \<and> flags_eq (user_data w) (user_data w')
      \<and> draft_eq (conv w) (user_data w) (user_data w'))"

definition keeps_draft :: "outcome \<Rightarrow> user_data \<Rightarrow> bool" where
  "keeps_draft out d =
     (task_text (fst (snd out)) = task_text d \<and> task_priority (fst (snd out)) = task_priority d)"

definition same_but_draft :: "outcome \<Rightarrow> outcome \<Rightarrow> bool" where
  "same_but_draft out out' =
     (fst out = fst out' \<and> snd (snd out) = snd (snd out')
      \<and> flags_eq (fst (snd out)) (fst (snd out')))"

text \<open>The draft holds what the conversation state says has been entered.\<close>

definition draft_entered :: "world \<Rightarrow> bool" where
  "draft_entered w =
     ((conv w = Some SET_PRIORITY \<or> conv w = Some SET_REMINDER \<longrightarrow> task_text (user_data w) \<noteq> None)
      \<and> (conv w = Some SET_REMINDER \<longrightarrow> task_priority (user_data w) \<noteq> None))"

text \<open>
  Worlds for the pending action: the completion flag is set and no dialogue is open; the
  user sends \<^verbatim>\<open>/complete\<close> and then \<^verbatim>\<open>/add\<close>; and then the text "1".
\<close>

definition world_awaiting :: world where
  "world_awaiting = \<lparr>conv = None, user_data = awaiting_completion, task_manager = store_AB\<rparr>"

definition world_flag_dialogue :: world where
  "world_flag_dialogue =
     run 7 [(env0, Command CmdComplete), (env0, Command CmdAdd)]
       \<lparr>conv = None, user_data = clear, task_manager = store_AB\<rparr>"

definition world_flag_priority :: world where
  "world_flag_priority = snd (process_update env0 7 (Text (ascii ''1'')) world_flag_dialogue)"

section \<open>Properties of the task store\<close>

lemma user_list_get_user_tasks: "fst (get_user_tasks tm u) = user_list tm u"
  by (simp add: get_user_tasks_def user_list_def split: option.splits)

lemma add_task_fst:
  "fst (add_task tm c u txt p r) =
     \<lparr>t_id = int (length (user_list tm u)) + 1, t_text = txt, t_priority = Some p,
      t_created_at = c, t_completed = False, t_reminder = r\<rparr>"
  by (simp add: add_task_def user_list_def Let_def split: option.splits)

lemma add_task_list:
  "user_list (snd (add_task tm c u txt p r)) u = user_list tm u @ [fst (add_task tm c u txt p r)]"
  by (simp add: add_task_def user_list_def save_tasks_def Let_def split: option.splits)

lemma delete_task_list:
  "user_list (snd (delete_task tm u i)) u = filter (\<lambda>t. t_id t \<noteq> i) (user_list tm u)"
  by (simp add: delete_task_def get_user_tasks_def user_list_def save_tasks_def Let_def
      split: option.splits)

lemma user_list_store_AB: "user_list store_AB 7 = [task_A, task_B]"
  by (simp add: store_AB_def add_task_def empty_store_def save_tasks_def user_list_def
      task_A_def task_B_def Let_def)

lemma user_list_store_BC: "user_list store_BC 7 = [task_B, task_C]"
  by (simp add: store_BC_def add_task_list add_task_fst delete_task_list user_list_store_AB
      task_A_def task_B_def task_C_def)

text \<open>
  Claim C1. Whatever the store holds, \<^verbatim>\<open>add_task\<close> gives the new task the id "length
  of the user's list plus one" (an absent user counting as an empty list) and appends it;
  earlier deletions play no part. In particular: user 7 holds A (id 1) and B (id 2) and
  deletes task 1; the task C created next gets the id 2, the id of the surviving B, and
  the list is then B, C.
\<close>

theorem add_task_id:
  "t_id (fst (add_task tm c u txt p r)) = int (length (user_list tm u)) + 1
   \<and> user_list (snd (add_task tm c u txt p r)) u = user_list tm u @ [fst (add_task tm c u txt p r)]
   \<and> user_list (snd (delete_task store_AB 7 1)) 7 = [task_B]
   \<and> fst (add_task (snd (delete_task store_AB 7 1)) (ascii ''2024-03-01 10:10:00'') 7 (ascii ''C'')
            MEDIUM None) = task_C
   \<and> t_id task_C = t_id task_B
   \<and> user_list store_BC 7 = [task_B, task_C]"
  by (simp add: add_task_fst add_task_list delete_task_list user_list_store_AB user_list_store_BC)
    (simp add: task_A_def task_B_def task_C_def)

lemma filter_shorter:
  "(length (filter (\<lambda>t. t_id t \<noteq> i) ts) < length ts) = (i \<in> t_id ` set ts)"
  by (induction ts) (auto simp: less_Suc_eq_le)

lemma delete_task_fst:
  "fst (delete_task tm u i) = (i \<in> t_id ` set (user_list tm u))"
  by (cases "tasks tm u")
    (simp_all add: delete_task_def get_user_tasks_def user_list_def Let_def filter_shorter)

lemma delete_task_tasks:
  "tasks (snd (delete_task tm u i)) = (tasks tm)(u \<mapsto> filter (\<lambda>t. t_id t \<noteq> i) (user_list tm u))"
  by (simp add: delete_task_def get_user_tasks_def user_list_def save_tasks_def Let_def
      split: option.splits)

lemma delete_task_saves:
  "saves (snd (delete_task tm u i)) =
     (if fst (delete_task tm u i) then tasks (snd (delete_task tm u i)) # saves tm else saves tm)"
  by (simp add: delete_task_def get_user_tasks_def user_list_def save_tasks_def Let_def
      split: option.splits)

lemma delete_first_spec_absent: "i \<notin> t_id ` set ts \<Longrightarrow> delete_first_spec i ts = ts"
  by (induction ts) auto

lemma delete_first_spec_distinct:
  "distinct (map t_id ts) \<Longrightarrow> filter (\<lambda>t. t_id t \<noteq> i) ts = delete_first_spec i ts"
  by (induction ts) (auto simp: filter_id_conv delete_first_spec_absent)

text \<open>
  Claim C2, as stated, fails. User 7 holds B and C, both with the id 2 (the store reached
  in C1). Removing the first task with id 2 would leave C; \<^verbatim>\<open>delete_task\<close> leaves nothing.
\<close>

theorem delete_task_counterexample:
  "user_list store_BC 7 = [task_B, task_C]
   \<and> delete_first_spec 2 (user_list store_BC 7) = [task_C]
   \<and> user_list (snd (delete_task store_BC 7 2)) 7 = []"
  by (simp add: delete_task_list user_list_store_BC) (simp add: task_B_def task_C_def)

text \<open>
  Claim C2, amended. \<^verbatim>\<open>delete_task\<close> removes every task whose id is the given one and
  keeps the others in their order; when the ids of the list are distinct this is the
  removal of the first (and only) such task. It answers success exactly when some task
  had the id, which is when the list shrank; on success the new mapping is saved, and
  otherwise nothing is saved.
\<close>

theorem delete_task_removes_all:
  "user_list (snd (delete_task tm u i)) u = filter (\<lambda>t. t_id t \<noteq> i) (user_list tm u)
   \<and> (distinct (map t_id (user_list tm u)) \<longrightarrow>
        user_list (snd (delete_task tm u i)) u = delete_first_spec i (user_list tm u))
   \<and> fst (delete_task tm u i) = (i \<in> t_id ` set (user_list tm u))
   \<and> fst (delete_task tm u i) = (length (user_list (snd (delete_task tm u i)) u) < length (user_list tm u))
   \<and> (fst (delete_task tm u i) \<longrightarrow>
        saves (snd (delete_task tm u i)) = tasks (snd (delete_task tm u i)) # saves tm)
   \<and> (\<not> fst (delete_task tm u i) \<longrightarrow> saves (snd (delete_task tm u i)) = saves tm)"
  by (simp add: delete_task_list delete_task_fst delete_task_saves delete_first_spec_distinct
      filter_shorter)

theorem delete_task_removes_all_witness:
  "distinct (map t_id (user_list store_AB 7))
   \<and> fst (delete_task store_AB 7 1)
   \<and> user_list (snd (delete_task store_AB 7 1)) 7 = [task_B]
   \<and> saves (snd (delete_task store_AB 7 1)) = tasks (snd (delete_task store_AB 7 1)) # saves store_AB
   \<and> \<not> fst (delete_task store_AB 7 5)
   \<and> saves (snd (delete_task store_AB 7 5)) = saves store_AB"
  using delete_task_removes_all [of store_AB 7 1] delete_task_removes_all [of store_AB 7 5]
  by (simp add: user_list_store_AB) (simp add: task_A_def task_B_def)

lemma complete_first_None: "(complete_first i ts = None) = (i \<notin> t_id ` set ts)"
  by (induction ts) auto

lemma complete_first_Some:
  "complete_first i ts = Some ts' \<Longrightarrow>
     \<exists>pre t post. ts = pre @ t # post \<and> i \<notin> t_id ` set pre \<and> t_id t = i
        \<and> ts' = pre @ t\<lparr>t_completed := True\<rparr> # post"
proof (induction ts arbitrary: ts')
  case Nil
  then show ?case by simp
next
  case (Cons a ts)
  show ?case
  proof (cases "t_id a = i")
    case True
    with Cons.prems have "ts' = a\<lparr>t_completed := True\<rparr> # ts" by simp
    with True have "a # ts = [] @ a # ts \<and> i \<notin> t_id ` set [] \<and> t_id a = i
        \<and> ts' = [] @ a\<lparr>t_completed := True\<rparr> # ts" by simp
    then show ?thesis by blast
  next
    case False
    with Cons.prems obtain r where r: "complete_first i ts = Some r" "ts' = a # r"
      by auto
    from Cons.IH [OF r(1)] obtain pre t post where
      d: "ts = pre @ t # post" "i \<notin> t_id ` set pre" "t_id t = i"
         "r = pre @ t\<lparr>t_completed := True\<rparr> # post" by blast
    with False r have "a # ts = (a # pre) @ t # post \<and> i \<notin> t_id ` set (a # pre) \<and> t_id t = i
        \<and> ts' = (a # pre) @ t\<lparr>t_completed := True\<rparr> # post" by auto
    then show ?thesis by blast
  qed
qed

lemma complete_first_done:
  "find (\<lambda>t. t_id t = i) ts = Some t \<Longrightarrow> t_completed t \<Longrightarrow> complete_first i ts = Some ts"
  by (induction ts) (auto split: if_splits)

lemma complete_task_fst:
  "fst (complete_task tm u i) = (i \<in> t_id ` set (user_list tm u))"
  using complete_first_None [of i "user_list tm u"]
  by (cases "tasks tm u")
    (auto simp: complete_task_def get_user_tasks_def user_list_def Let_def split: option.splits)

lemma complete_task_list:
  "user_list (snd (complete_task tm u i)) u =
     (case complete_first i (user_list tm u) of None \<Rightarrow> user_list tm u | Some ts' \<Rightarrow> ts')"
  by (cases "tasks tm u")
    (auto simp: complete_task_def get_user_tasks_def user_list_def save_tasks_def Let_def
      split: option.splits)

lemma complete_task_saves:
  "saves (snd (complete_task tm u i)) =
     (if fst (complete_task tm u i) then tasks (snd (complete_task tm u i)) # saves tm else saves tm)"
  by (cases "tasks tm u")
    (auto simp: complete_task_def get_user_tasks_def user_list_def save_tasks_def Let_def
      split: option.splits)

text \<open>
  Claim C3. \<^verbatim>\<open>complete_task\<close> answers success exactly when some task of the user's list
  has the id. On success the first task with the id is the one marked: the list is the old
  one with that task's \<open>completed\<close> set to true, and the mapping is saved. When that task
  was completed already, the call still answers success and the list is as before, so
  \<open>completed\<close> stays true.
\<close>

theorem complete_task_marks_first:
  "fst (complete_task tm u i) = (i \<in> t_id ` set (user_list tm u))
   \<and> (fst (complete_task tm u i) \<longrightarrow>
        (\<exists>pre t post. user_list tm u = pre @ t # post \<and> i \<notin> t_id ` set pre \<and> t_id t = i
           \<and> user_list (snd (complete_task tm u i)) u = pre @ t\<lparr>t_completed := True\<rparr> # post)
        \<and> saves (snd (complete_task tm u i)) = tasks (snd (complete_task tm u i)) # saves tm)
   \<and> (find (\<lambda>t. t_id t = i) (user_list tm u) = Some t \<and> t_completed t \<longrightarrow>
        fst (complete_task tm u i) \<and> user_list (snd (complete_task tm u i)) u = user_list tm u)"
proof (intro conjI impI)
  show "fst (complete_task tm u i) = (i \<in> t_id ` set (user_list tm u))"
    by (rule complete_task_fst)
next
  assume ok: "fst (complete_task tm u i)"
  then obtain ts' where s: "complete_first i (user_list tm u) = Some ts'"
    using complete_first_None [of i "user_list tm u"] by (auto simp: complete_task_fst)
  then have "user_list (snd (complete_task tm u i)) u = ts'"
    by (simp add: complete_task_list)
  with complete_first_Some [OF s]
  show "\<exists>pre t post. user_list tm u = pre @ t # post \<and> i \<notin> t_id ` set pre \<and> t_id t = i
           \<and> user_list (snd (complete_task tm u i)) u = pre @ t\<lparr>t_completed := True\<rparr> # post"
    by simp
  from ok show "saves (snd (complete_task tm u i)) = tasks (snd (complete_task tm u i)) # saves tm"
    by (simp add: complete_task_saves)
next
  assume a: "find (\<lambda>t. t_id t = i) (user_list tm u) = Some t \<and> t_completed t"
  then have s: "complete_first i (user_list tm u) = Some (user_list tm u)"
    by (simp add: complete_first_done)
  then show "fst (complete_task tm u i)"
    using complete_first_None [of i "user_list tm u"] by (simp add: complete_task_fst)
  from s show "user_list (snd (complete_task tm u i)) u = user_list tm u"
    by (simp add: complete_task_list)
qed

lemma user_list_store_A_done:
  "user_list store_A_done 7 = [task_A\<lparr>t_completed := True\<rparr>, task_B]"
  by (simp add: store_A_done_def complete_task_list user_list_store_AB task_A_def)

theorem complete_task_marks_first_witness:
  "fst (complete_task store_AB 7 1)
   \<and> user_list (snd (complete_task store_AB 7 1)) 7 = [task_A\<lparr>t_completed := True\<rparr>, task_B]
   \<and> saves (snd (complete_task store_AB 7 1)) = tasks (snd (complete_task store_AB 7 1)) # saves store_AB
   \<and> find (\<lambda>t. t_id t = 1) (user_list store_A_done 7) = Some (task_A\<lparr>t_completed := True\<rparr>)
   \<and> t_completed (task_A\<lparr>t_completed := True\<rparr>)
   \<and> fst (complete_task store_A_done 7 1)
   \<and> user_list (snd (complete_task store_A_done 7 1)) 7 = user_list store_A_done 7"
  using complete_task_marks_first [of store_AB 7 1]
    complete_task_marks_first [where tm = store_A_done and u = 7 and i = 1
      and t = "task_A\<lparr>t_completed := True\<rparr>"]
  by (simp add: user_list_store_AB user_list_store_A_done complete_task_list)
    (simp add: task_A_def task_B_def)

lemma complete_task_absent:
  "i \<notin> t_id ` set (user_list tm u) \<Longrightarrow>
     complete_task tm u i = (False, tm\<lparr>tasks := (tasks tm)(u \<mapsto> user_list tm u)\<rparr>)"
  using complete_first_None [of i "user_list tm u"]
  by (cases "tasks tm u")
    (auto simp: complete_task_def get_user_tasks_def user_list_def Let_def fun_upd_idem)

lemma filter_absent: "i \<notin> t_id ` set ts \<Longrightarrow> filter (\<lambda>t. t_id t \<noteq> i) ts = ts"
  by (induction ts) auto

lemma delete_task_absent:
  "i \<notin> t_id ` set (user_list tm u) \<Longrightarrow>
     delete_task tm u i = (False, tm\<lparr>tasks := (tasks tm)(u \<mapsto> user_list tm u)\<rparr>)"
  by (cases "tasks tm u")
    (auto simp: delete_task_def get_user_tasks_def user_list_def Let_def filter_absent)

text \<open>
  Claim C4, as stated, fails. User 7 has no entry in the empty store; completing or
  deleting task 1 answers not-found, and the store then holds an empty entry for the
  user: \<^verbatim>\<open>get_user_tasks\<close> created it. The mapping is not the one before the call.
\<close>

theorem not_found_counterexample:
  "1 \<notin> t_id ` set (user_list empty_store 7)
   \<and> tasks empty_store 7 = None
   \<and> tasks (snd (complete_task empty_store 7 1)) 7 = Some []
   \<and> tasks (snd (delete_task empty_store 7 1)) 7 = Some []"
  by (simp add: complete_task_def delete_task_def get_user_tasks_def user_list_def
      empty_store_def Let_def)

text \<open>
  Claim C4, amended. With an id that no task of the user's list has, \<^verbatim>\<open>complete_task\<close>
  and \<^verbatim>\<open>delete_task\<close> answer not-found and save nothing; every user's list (an absent
  user read as the empty list) is as before, so no task is added, removed or modified.
  The only change to the mapping is the empty entry a user without one receives; for a
  user who has an entry the whole store is unchanged.
\<close>

theorem not_found_no_effect:
  assumes "i \<notin> t_id ` set (user_list tm u)"
  shows "\<not> fst (complete_task tm u i) \<and> \<not> fst (delete_task tm u i)
    \<and> tasks (snd (complete_task tm u i)) = (tasks tm)(u \<mapsto> user_list tm u)
    \<and> tasks (snd (delete_task tm u i)) = (tasks tm)(u \<mapsto> user_list tm u)
    \<and> (\<forall>v. user_list (snd (complete_task tm u i)) v = user_list tm v
           \<and> user_list (snd (delete_task tm u i)) v = user_list tm v)
    \<and> (tasks tm u \<noteq> None \<longrightarrow> snd (complete_task tm u i) = tm \<and> snd (delete_task tm u i) = tm)
    \<and> saves (snd (complete_task tm u i)) = saves tm
    \<and> saves (snd (delete_task tm u i)) = saves tm"
proof -
  have same: "user_list (tm\<lparr>tasks := (tasks tm)(u \<mapsto> user_list tm u)\<rparr>) v = user_list tm v" for v
    by (simp add: user_list_def)
  have idem: "tasks tm u \<noteq> None \<Longrightarrow> tm\<lparr>tasks := (tasks tm)(u \<mapsto> user_list tm u)\<rparr> = tm"
    by (auto simp: user_list_def fun_upd_idem)
  show ?thesis
    using same idem by (simp add: complete_task_absent [OF assms] delete_task_absent [OF assms])
qed

lemma tasks_store_AB: "tasks store_AB 7 = Some [task_A, task_B]"
  by (simp add: store_AB_def add_task_def empty_store_def save_tasks_def
      task_A_def task_B_def Let_def)

theorem not_found_no_effect_witness:
  "5 \<notin> t_id ` set (user_list store_AB 7)
   \<and> \<not> fst (complete_task store_AB 7 5) \<and> \<not> fst (delete_task store_AB 7 5)
   \<and> tasks store_AB 7 \<noteq> None
   \<and> snd (complete_task store_AB 7 5) = store_AB \<and> snd (delete_task store_AB 7 5) = store_AB
   \<and> 1 \<notin> t_id ` set (user_list empty_store 7)
   \<and> user_list (snd (complete_task empty_store 7 1)) 7 = []
   \<and> saves (snd (delete_task empty_store 7 1)) = []"
proof -
  have h1: "5 \<notin> t_id ` set (user_list store_AB 7)"
    by (simp add: user_list_store_AB task_A_def task_B_def)
  have h2: "1 \<notin> t_id ` set (user_list empty_store 7)"
    by (simp add: user_list_def empty_store_def)
  have h3: "tasks store_AB 7 \<noteq> None"
    by (simp add: tasks_store_AB)
  have h4: "user_list empty_store 7 = []" "saves empty_store = []"
    by (simp_all add: user_list_def empty_store_def)
  show ?thesis
    using not_found_no_effect [OF h1] not_found_no_effect [OF h2] h1 h2 h3 h4 by simp
qed

lemma categorize_filter:
  "categorize ts c =
     map (\<lambda>(k, v). (k, v @ filter (\<lambda>t. \<not> t_completed t \<and> get_priority t = k) ts)) c"
proof (induction ts arbitrary: c)
  case Nil
  then show ?case by simp
next
  case (Cons t ts)
  have absent: "get_priority t \<notin> fst ` set c \<Longrightarrow>
      map (\<lambda>(k, v). (k, v @ filter (\<lambda>t. \<not> t_completed t \<and> get_priority t = k) ts)) c =
      map (\<lambda>(k, v). (k, v @ filter (\<lambda>t. \<not> t_completed t \<and> get_priority t = k) (t # ts))) c"
    by (rule map_cong) (auto simp: image_iff)
  show ?case
    using absent by (auto simp: Cons.IH bucket_append_def Let_def split_def)
qed

lemma get_tasks_by_priority_filter:
  "fst (get_tasks_by_priority tm u) =
     map (\<lambda>p. (p, filter (\<lambda>t. \<not> t_completed t \<and> get_priority t = p) (user_list tm u))) PRIORITIES"
  by (cases "tasks tm u")
    (simp_all add: get_tasks_by_priority_def get_user_tasks_def user_list_def categorize_filter
      PRIORITIES_def)

lemma priorities_distinct: "distinct PRIORITIES"
  by (simp add: PRIORITIES_def HIGH_def MEDIUM_def LOW_def)

lemma bucket_keys: "map fst (fst (get_tasks_by_priority tm u)) = [HIGH, MEDIUM, LOW]"
  by (simp add: get_tasks_by_priority_filter PRIORITIES_def)

lemma bucket_contents:
  "\<forall>(p, b) \<in> set (fst (get_tasks_by_priority tm u)).
     b = filter (\<lambda>t. \<not> t_completed t \<and> get_priority t = p) (user_list tm u)
     \<and> (\<forall>t \<in> set b. \<not> t_completed t)
     \<and> subseq b (user_list tm u)"
  by (simp add: get_tasks_by_priority_filter PRIORITIES_def)

text \<open>
  Claim C5. \<^verbatim>\<open>get_tasks_by_priority\<close> returns three buckets, their keys the three
  (distinct) priorities in the order of \<open>PRIORITIES\<close>, whatever the list holds. Each
  bucket is the user's list filtered to the tasks that are not completed and have the
  bucket's priority: no completed task is in any bucket, and a bucket is a subsequence of
  the user's list, so the relative order is kept.
\<close>

theorem tasks_by_priority_buckets:
  "map fst (fst (get_tasks_by_priority tm u)) = [HIGH, MEDIUM, LOW]
   \<and> distinct [HIGH, MEDIUM, LOW]
   \<and> length (fst (get_tasks_by_priority tm u)) = 3
   \<and> (\<forall>(p, b) \<in> set (fst (get_tasks_by_priority tm u)).
         b = filter (\<lambda>t. \<not> t_completed t \<and> get_priority t = p) (user_list tm u)
         \<and> (\<forall>t \<in> set b. \<not> t_completed t)
         \<and> subseq b (user_list tm u))"
proof (intro conjI)
  show "map fst (fst (get_tasks_by_priority tm u)) = [HIGH, MEDIUM, LOW]"
    by (rule bucket_keys)
  show "distinct [HIGH, MEDIUM, LOW]"
    using priorities_distinct unfolding PRIORITIES_def .
  show "length (fst (get_tasks_by_priority tm u)) = 3"
    by (simp add: get_tasks_by_priority_filter PRIORITIES_def)
  show "\<forall>(p, b) \<in> set (fst (get_tasks_by_priority tm u)).
         b = filter (\<lambda>t. \<not> t_completed t \<and> get_priority t = p) (user_list tm u)
         \<and> (\<forall>t \<in> set b. \<not> t_completed t)
         \<and> subseq b (user_list tm u)"
    by (rule bucket_contents)
qed

lemma buckets_store_A_done:
  "fst (get_tasks_by_priority store_A_done 7) = [(HIGH, []), (MEDIUM, []), (LOW, [task_B])]"
  by (simp add: get_tasks_by_priority_filter user_list_store_A_done PRIORITIES_def get_priority_def)
    (simp add: task_A_def task_B_def HIGH_def MEDIUM_def LOW_def)

theorem tasks_by_priority_buckets_witness:
  "fst (get_tasks_by_priority store_A_done 7) = [(HIGH, []), (MEDIUM, []), (LOW, [task_B])]
   \<and> (LOW, [task_B]) \<in> set (fst (get_tasks_by_priority store_A_done 7))
   \<and> task_B \<in> set [task_B] \<and> \<not> t_completed task_B
   \<and> subseq [task_B] (user_list store_A_done 7)"
proof -
  have m: "(LOW, [task_B]) \<in> set (fst (get_tasks_by_priority store_A_done 7))"
    by (simp add: buckets_store_A_done)
  have "case (LOW, [task_B]) of (p, b) \<Rightarrow>
          b = filter (\<lambda>t. \<not> t_completed t \<and> get_priority t = p) (user_list store_A_done 7)
          \<and> (\<forall>t \<in> set b. \<not> t_completed t) \<and> subseq b (user_list store_A_done 7)"
    by (rule bspec [OF tasks_by_priority_buckets [of store_A_done 7,
            THEN conjunct2, THEN conjunct2, THEN conjunct2] m])
  then have "\<not> t_completed task_B \<and> subseq [task_B] (user_list store_A_done 7)"
    by simp
  then show ?thesis
    by (simp add: buckets_store_A_done)
qed

text \<open>
  Claim C10. An incomplete task of the user's list whose priority is none of the three
  labels is in no bucket. An incomplete task without a priority field is in the bucket
  of \<open>MEDIUM\<close>, and in no other.
\<close>

theorem unknown_priority_dropped:
  assumes "t \<in> set (user_list tm u)" and "\<not> t_completed t"
  shows "(t_priority t = Some p \<and> p \<notin> set PRIORITIES \<longrightarrow>
            (\<forall>(k, b) \<in> set (fst (get_tasks_by_priority tm u)). t \<notin> set b))
       \<and> (t_priority t = None \<longrightarrow>
            (\<exists>b. (MEDIUM, b) \<in> set (fst (get_tasks_by_priority tm u)) \<and> t \<in> set b)
            \<and> (\<forall>(k, b) \<in> set (fst (get_tasks_by_priority tm u)). t \<in> set b \<longrightarrow> k = MEDIUM))"
proof (intro conjI impI)
  assume "t_priority t = Some p \<and> p \<notin> set PRIORITIES"
  then have "get_priority t \<notin> set PRIORITIES"
    by (simp add: get_priority_def)
  then show "\<forall>(k, b) \<in> set (fst (get_tasks_by_priority tm u)). t \<notin> set b"
    by (simp add: get_tasks_by_priority_filter PRIORITIES_def)
next
  assume "t_priority t = None"
  then have m: "get_priority t = MEDIUM"
    by (simp add: get_priority_def)
  let ?b = "filter (\<lambda>t. \<not> t_completed t \<and> get_priority t = MEDIUM) (user_list tm u)"
  have "(MEDIUM, ?b) \<in> set (fst (get_tasks_by_priority tm u))"
    by (simp add: get_tasks_by_priority_filter PRIORITIES_def)
  moreover have "t \<in> set ?b"
    using assms m by simp
  ultimately show "\<exists>b. (MEDIUM, b) \<in> set (fst (get_tasks_by_priority tm u)) \<and> t \<in> set b"
    by blast
  show "\<forall>(k, b) \<in> set (fst (get_tasks_by_priority tm u)). t \<in> set b \<longrightarrow> k = MEDIUM"
    using m by (simp add: get_tasks_by_priority_filter PRIORITIES_def)
qed

lemma buckets_store_XY:
  "fst (get_tasks_by_priority store_XY 7) = [(HIGH, []), (MEDIUM, [task_Y]), (LOW, [])]"
  by (simp add: get_tasks_by_priority_filter user_list_def store_XY_def PRIORITIES_def get_priority_def)
    (simp add: task_X_def task_Y_def HIGH_def MEDIUM_def LOW_def ascii_def)

theorem unknown_priority_dropped_witness:
  "task_X \<in> set (user_list store_XY 7) \<and> \<not> t_completed task_X
   \<and> t_priority task_X = Some (ascii ''urgent'') \<and> ascii ''urgent'' \<notin> set PRIORITIES
   \<and> task_Y \<in> set (user_list store_XY 7) \<and> \<not> t_completed task_Y \<and> t_priority task_Y = None
   \<and> fst (get_tasks_by_priority store_XY 7) = [(HIGH, []), (MEDIUM, [task_Y]), (LOW, [])]
   \<and> task_X \<notin> set [task_Y] \<and> task_Y \<in> set [task_Y]"
proof -
  have x: "task_X \<in> set (user_list store_XY 7)" "\<not> t_completed task_X"
    "t_priority task_X = Some (ascii ''urgent'')"
    by (simp_all add: user_list_def store_XY_def task_X_def)
  have p: "ascii ''urgent'' \<notin> set PRIORITIES"
    by (simp add: PRIORITIES_def HIGH_def MEDIUM_def LOW_def ascii_def)
  have y: "task_Y \<in> set (user_list store_XY 7)" "\<not> t_completed task_Y" "t_priority task_Y = None"
    by (simp_all add: user_list_def store_XY_def task_Y_def)
  show ?thesis
    using unknown_priority_dropped [OF x(1) x(2), of "ascii ''urgent''"]
      unknown_priority_dropped [OF y(1) y(2)] x p y
    by (simp add: buckets_store_XY)
qed

section \<open>Properties of the handlers\<close>

text \<open>
  Claim C9. \<^verbatim>\<open>cancel\<close> empties the user's session data: the draft (text and priority)
  and both pending-action flags are gone, and the store is as before. This is what the
  \<^verbatim>\<open>/cancel\<close> command does in every state of the conversation, also when no dialogue is
  open (the handler is registered as fallback and on its own); afterwards no dialogue is
  open.
\<close>

theorem cancel_clears_session:
  "cancel ud tm = ([Cancelled], clear, tm, End)
   \<and> task_text clear = None \<and> task_priority clear = None
   \<and> \<not> awaiting_complete clear \<and> \<not> awaiting_delete clear
   \<and> process_update e u (Command CmdCancel) w =
       ([Cancelled], \<lparr>conv = None, user_data = clear, task_manager = task_manager w\<rparr>)"
  by (cases "conv w")
    (simp_all add: cancel_def clear_def standalone_def in_conversation_def error_handler_def)

lemma handle_task_action_failure:
  "to_int e text = None \<Longrightarrow> handle_task_action e u text ud tm = ([BadNumber], ud, tm, ReturnNone)"
  by (simp add: handle_task_action_def)

lemma handle_task_action_complete:
  "to_int e text = Some n \<Longrightarrow> awaiting_complete ud \<Longrightarrow>
     handle_task_action e u text ud tm =
       ([if fst (complete_task tm u n) then Completed n else NotFound n],
        ud\<lparr>awaiting_complete := False\<rparr>, snd (complete_task tm u n), ReturnNone)"
  by (simp add: handle_task_action_def split_def)

lemma handle_task_action_delete:
  "to_int e text = Some n \<Longrightarrow> \<not> awaiting_complete ud \<Longrightarrow> awaiting_delete ud \<Longrightarrow>
     handle_task_action e u text ud tm =
       ([if fst (delete_task tm u n) then Deleted n else NotFound n],
        ud\<lparr>awaiting_delete := False\<rparr>, snd (delete_task tm u n), ReturnNone)"
  by (simp add: handle_task_action_def split_def)

lemma process_update_text_idle:
  "conv w = None \<Longrightarrow>
     process_update e u (Text text) w =
       standalone w (handle_task_action e u text (user_data w) (task_manager w))"
  by simp

lemma labels_distinct: "distinct [IN_1_HOUR, IN_3_HOURS, TOMORROW, IN_A_WEEK]"
  by (simp add: IN_1_HOUR_def IN_3_HOURS_def TOMORROW_def IN_A_WEEK_def)

lemma labels_differ:
  "IN_3_HOURS \<noteq> IN_1_HOUR" "TOMORROW \<noteq> IN_1_HOUR" "TOMORROW \<noteq> IN_3_HOURS"
  "IN_A_WEEK \<noteq> IN_1_HOUR" "IN_A_WEEK \<noteq> IN_3_HOURS" "IN_A_WEEK \<noteq> TOMORROW"
  by (simp_all add: IN_1_HOUR_def IN_3_HOURS_def TOMORROW_def IN_A_WEEK_def)

lemma reminder_time_cases:
  "reminder_time e IN_1_HOUR = Some (strftime e (now_reminder e + 3600))"
  "reminder_time e IN_3_HOURS = Some (strftime e (now_reminder e + 10800))"
  "reminder_time e TOMORROW = Some (strftime e (now_reminder e + 86400))"
  "reminder_time e IN_A_WEEK = Some (strftime e (now_reminder e + 604800))"
  "r \<notin> {IN_1_HOUR, IN_3_HOURS, TOMORROW, IN_A_WEEK} \<Longrightarrow> reminder_time e r = None"
  by (simp_all add: reminder_time_def hours_def days_def weeks_def labels_differ)

lemma set_reminder_draft:
  "task_text ud = Some txt \<Longrightarrow> task_priority ud = Some p \<Longrightarrow>
     set_reminder e u r ud tm =
       ([Created (fst (add_task tm (strftime e (now_created e)) u txt p (reminder_time e r)))
           (if reminder_time e r = Some [] then None else reminder_time e r)],
        clear, snd (add_task tm (strftime e (now_created e)) u txt p (reminder_time e r)), End)"
  by (simp add: set_reminder_def split_def Let_def)

lemma add_task_saves:
  "saves (snd (add_task tm c u txt p r)) = tasks (snd (add_task tm c u txt p r)) # saves tm"
  by (simp add: add_task_def save_tasks_def Let_def)

text \<open>
  Claim C6. In the state \<open>SET_REMINDER\<close>, with a draft holding text and priority, every
  text message ends the dialogue, clears the session data and appends one task made of
  the draft, which is saved. Its reminder is the formatted clock reading plus one hour,
  three hours, one day or seven days when the message is the matching label, and none
  for any other message.
\<close>

theorem reminder_step_creates_task:
  assumes "conv w = Some SET_REMINDER"
    and "task_text (user_data w) = Some txt" and "task_priority (user_data w) = Some p"
  shows "conv (snd (process_update e u (Text r) w)) = None
    \<and> user_data (snd (process_update e u (Text r) w)) = clear
    \<and> user_list (task_manager (snd (process_update e u (Text r) w))) u =
        user_list (task_manager w) u @
          [\<lparr>t_id = int (length (user_list (task_manager w) u)) + 1, t_text = txt,
            t_priority = Some p, t_created_at = strftime e (now_created e),
            t_completed = False, t_reminder = reminder_time e r\<rparr>]
    \<and> saves (task_manager (snd (process_update e u (Text r) w))) =
        tasks (task_manager (snd (process_update e u (Text r) w))) # saves (task_manager w)
    \<and> (r = IN_1_HOUR \<longrightarrow> reminder_time e r = Some (strftime e (now_reminder e + 3600)))
    \<and> (r = IN_3_HOURS \<longrightarrow> reminder_time e r = Some (strftime e (now_reminder e + 3 * 3600)))
    \<and> (r = TOMORROW \<longrightarrow> reminder_time e r = Some (strftime e (now_reminder e + 24 * 3600)))
    \<and> (r = IN_A_WEEK \<longrightarrow> reminder_time e r = Some (strftime e (now_reminder e + 7 * 24 * 3600)))
    \<and> (r \<notin> {IN_1_HOUR, IN_3_HOURS, TOMORROW, IN_A_WEEK} \<longrightarrow> reminder_time e r = None)"
proof -
  have "process_update e u (Text r) w =
      in_conversation w (set_reminder e u r (user_data w) (task_manager w))"
    using assms(1) by simp
  then have "snd (process_update e u (Text r) w) =
      \<lparr>conv = None, user_data = clear,
       task_manager = snd (add_task (task_manager w) (strftime e (now_created e)) u txt p
                             (reminder_time e r))\<rparr>"
    by (simp add: set_reminder_draft [OF assms(2) assms(3)] in_conversation_def error_handler_def)
  then show ?thesis
    by (simp add: add_task_list add_task_fst add_task_saves reminder_time_cases)
qed


lemma strftime_env0:
  "strftime env0 (now_created env0) = ascii ''2024-03-01 10:00:01''"
  "strftime env0 (now_reminder env0 + 3600) = ascii ''2024-03-01 11:00:00''"
  by (simp_all add: env0_def iso_strftime_def civil_from_days_def four_digits_def two_digits_def
      digit_def ascii_def Let_def)

theorem reminder_step_creates_task_witness:
  "conv world_milk = Some SET_REMINDER
   \<and> task_text (user_data world_milk) = Some (ascii ''Buy milk'')
   \<and> task_priority (user_data world_milk) = Some MEDIUM
   \<and> conv (snd (process_update env0 7 (Text IN_1_HOUR) world_milk)) = None
   \<and> user_data (snd (process_update env0 7 (Text IN_1_HOUR) world_milk)) = clear
   \<and> user_list (task_manager (snd (process_update env0 7 (Text IN_1_HOUR) world_milk))) 7 =
       [task_milk (Some (ascii ''2024-03-01 11:00:00''))]
   \<and> ascii ''later'' \<notin> {IN_1_HOUR, IN_3_HOURS, TOMORROW, IN_A_WEEK}
   \<and> conv (snd (process_update env0 7 (Text (ascii ''later'')) world_milk)) = None
   \<and> user_list (task_manager (snd (process_update env0 7 (Text (ascii ''later'')) world_milk))) 7 =
       [task_milk None]"
proof -
  have h: "conv world_milk = Some SET_REMINDER"
    "task_text (user_data world_milk) = Some (ascii ''Buy milk'')"
    "task_priority (user_data world_milk) = Some MEDIUM"
    by (simp_all add: world_milk_def draft_milk_def)
  have l: "ascii ''later'' \<notin> {IN_1_HOUR, IN_3_HOURS, TOMORROW, IN_A_WEEK}"
    by (simp add: ascii_def IN_1_HOUR_def IN_3_HOURS_def TOMORROW_def IN_A_WEEK_def)
  have e: "user_list (task_manager world_milk) 7 = []"
    by (simp add: world_milk_def user_list_def empty_store_def)
  show ?thesis
    using reminder_step_creates_task [OF h, of env0 7 IN_1_HOUR]
      reminder_step_creates_task [OF h, of env0 7 "ascii ''later''"] l
    by (simp add: h e strftime_env0 task_milk_def)
qed

section \<open>The creation dialogue\<close>

lemma standalone_agree:
  assumes "agree w w'" and "same_but_draft out out'"
    and "keeps_draft out (user_data w)" and "keeps_draft out' (user_data w')"
  shows "fst (standalone w out) = fst (standalone w' out')
    \<and> agree (snd (standalone w out)) (snd (standalone w' out'))"
  using assms
  by (cases out; cases out')
    (simp add: standalone_def agree_def same_but_draft_def keeps_draft_def draft_eq_def)

lemma start_frame:
  "keeps_draft (start d tm) d" "flags_eq d d' \<Longrightarrow> same_but_draft (start d tm) (start d' tm)"
  by (simp_all add: start_def keeps_draft_def same_but_draft_def)

lemma help_frame:
  "keeps_draft (help_command d tm) d"
  "flags_eq d d' \<Longrightarrow> same_but_draft (help_command d tm) (help_command d' tm)"
  by (simp_all add: help_command_def keeps_draft_def same_but_draft_def)

lemma list_tasks_frame:
  "keeps_draft (list_tasks u d tm) d"
  "flags_eq d d' \<Longrightarrow> same_but_draft (list_tasks u d tm) (list_tasks u d' tm)"
  by (simp_all add: list_tasks_def keeps_draft_def same_but_draft_def split_def Let_def)

lemma complete_task_handler_frame:
  "keeps_draft (complete_task_handler u d tm) d"
  "flags_eq d d' \<Longrightarrow>
     same_but_draft (complete_task_handler u d tm) (complete_task_handler u d' tm)"
  by (simp_all add: complete_task_handler_def keeps_draft_def same_but_draft_def flags_eq_def
      split_def Let_def)

lemma delete_task_handler_frame:
  "keeps_draft (delete_task_handler u d tm) d"
  "flags_eq d d' \<Longrightarrow>
     same_but_draft (delete_task_handler u d tm) (delete_task_handler u d' tm)"
  by (simp_all add: delete_task_handler_def keeps_draft_def same_but_draft_def flags_eq_def
      split_def Let_def)

lemma handle_task_action_frame:
  "keeps_draft (handle_task_action e u s d tm) d"
  "flags_eq d d' \<Longrightarrow>
     same_but_draft (handle_task_action e u s d tm) (handle_task_action e u s d' tm)"
  by (simp_all add: handle_task_action_def keeps_draft_def same_but_draft_def flags_eq_def
      split_def Let_def split: option.splits)

lemma cancel_agree:
  assumes "agree w w'"
  shows "fst (standalone w (cancel (user_data w) (task_manager w))) =
      fst (standalone w' (cancel (user_data w') (task_manager w')))
    \<and> agree (snd (standalone w (cancel (user_data w) (task_manager w))))
        (snd (standalone w' (cancel (user_data w') (task_manager w'))))
    \<and> fst (in_conversation w (cancel (user_data w) (task_manager w))) =
      fst (in_conversation w' (cancel (user_data w') (task_manager w')))
    \<and> agree (snd (in_conversation w (cancel (user_data w) (task_manager w))))
        (snd (in_conversation w' (cancel (user_data w') (task_manager w'))))"
  using assms
  by (simp add: cancel_def standalone_def in_conversation_def error_handler_def agree_def
      flags_eq_def draft_eq_def)

lemma add_task_start_agree:
  assumes "agree w w'"
  shows "fst (in_conversation w (add_task_start (user_data w) (task_manager w))) =
      fst (in_conversation w' (add_task_start (user_data w') (task_manager w')))
    \<and> agree (snd (in_conversation w (add_task_start (user_data w) (task_manager w))))
        (snd (in_conversation w' (add_task_start (user_data w') (task_manager w'))))"
  using assms
  by (simp add: add_task_start_def in_conversation_def error_handler_def agree_def draft_eq_def)

lemma add_task_text_agree:
  assumes "agree w w'"
  shows "fst (in_conversation w (add_task_text s (user_data w) (task_manager w))) =
      fst (in_conversation w' (add_task_text s (user_data w') (task_manager w')))
    \<and> agree (snd (in_conversation w (add_task_text s (user_data w) (task_manager w))))
        (snd (in_conversation w' (add_task_text s (user_data w') (task_manager w'))))"
  using assms
  by (simp add: add_task_text_def in_conversation_def error_handler_def agree_def draft_eq_def
      flags_eq_def)

lemma set_priority_agree:
  assumes "agree w w'" and "conv w = Some SET_PRIORITY"
  shows "fst (in_conversation w (set_priority s (user_data w) (task_manager w))) =
      fst (in_conversation w' (set_priority s (user_data w') (task_manager w')))
    \<and> agree (snd (in_conversation w (set_priority s (user_data w) (task_manager w))))
        (snd (in_conversation w' (set_priority s (user_data w') (task_manager w'))))"
proof -
  from assms have "conv w' = Some SET_PRIORITY"
    by (simp add: agree_def)
  with assms show ?thesis
    by (simp add: set_priority_def in_conversation_def error_handler_def agree_def draft_eq_def
        flags_eq_def)
qed

lemma set_reminder_agree:
  assumes "agree w w'" and "conv w = Some SET_REMINDER"
  shows "fst (in_conversation w (set_reminder e u s (user_data w) (task_manager w))) =
      fst (in_conversation w' (set_reminder e u s (user_data w') (task_manager w')))
    \<and> agree (snd (in_conversation w (set_reminder e u s (user_data w) (task_manager w))))
        (snd (in_conversation w' (set_reminder e u s (user_data w') (task_manager w'))))"
proof -
  from assms have "conv w' = Some SET_REMINDER"
    by (simp add: agree_def)
  with assms show ?thesis
    by (simp add: set_reminder_def in_conversation_def error_handler_def agree_def draft_eq_def
        flags_eq_def split_def Let_def split: option.splits)
qed


lemma agree_step:
  assumes a: "agree w w'"
  shows "fst (process_update e u upd w) = fst (process_update e u upd w')
    \<and> agree (snd (process_update e u upd w)) (snd (process_update e u upd w'))"
proof -
  from a have c: "conv w' = conv w" and t: "task_manager w' = task_manager w"
    and f: "flags_eq (user_data w) (user_data w')"
    by (simp_all add: agree_def)
  note sa = standalone_agree [OF a]
  show ?thesis
  proof (cases upd)
    case (Command cmd)
    show ?thesis
    proof (cases cmd)
      case CmdStart
      with Command sa [OF start_frame(2) [OF f] start_frame(1) start_frame(1)] t
      show ?thesis by simp
    next
      case CmdHelp
      with Command sa [OF help_frame(2) [OF f] help_frame(1) help_frame(1)] t
      show ?thesis by simp
    next
      case CmdAdd
      with Command add_task_start_agree [OF a] a c show ?thesis
        by (cases "conv w") simp_all
    next
      case CmdList
      with Command sa [OF list_tasks_frame(2) [OF f] list_tasks_frame(1) list_tasks_frame(1)] t c
      show ?thesis by (cases "conv w") simp_all
    next
      case CmdComplete
      with Command sa [OF complete_task_handler_frame(2) [OF f] complete_task_handler_frame(1)
          complete_task_handler_frame(1)] t c
      show ?thesis by (cases "conv w") simp_all
    next
      case CmdDelete
      with Command sa [OF delete_task_handler_frame(2) [OF f] delete_task_handler_frame(1)
          delete_task_handler_frame(1)] t c
      show ?thesis by (cases "conv w") simp_all
    next
      case CmdCancel
      with Command cancel_agree [OF a] c show ?thesis
        by (cases "conv w") simp_all
    next
      case CmdOther
      with Command a c show ?thesis
        by (cases "conv w") simp_all
    qed
  next
    case (Text s)
    note h = sa [OF handle_task_action_frame(2) [OF f] handle_task_action_frame(1)
        handle_task_action_frame(1)]
    show ?thesis
    proof (cases "conv w")
      case None
      with Text h t c show ?thesis by simp
    next
      case (Some st)
      show ?thesis
      proof (cases st)
        case CHOOSING_ACTION
        with Some Text h t c show ?thesis by simp
      next
        case ADD_TASK
        with Some Text add_task_text_agree [OF a] c show ?thesis by simp
      next
        case SET_PRIORITY
        with Some Text set_priority_agree [OF a] c show ?thesis by simp
      next
        case SET_REMINDER
        with Some Text set_reminder_agree [OF a] c show ?thesis by simp
      qed
    qed
  qed
qed

lemma agree_run: "agree w w' \<Longrightarrow> agree (run u evs w) (run u evs w')"
proof (induction evs arbitrary: w w')
  case Nil
  then show ?case by simp
next
  case (Cons a evs)
  obtain e upd where a: "a = (e, upd)" by (cases a)
  from agree_step [OF Cons.prems, of e u upd]
  have "agree (snd (process_update e u upd w)) (snd (process_update e u upd w'))" by simp
  from Cons.IH [OF this] show ?case by (simp add: a)
qed


lemma reminder_step_world:
  assumes "conv w = Some SET_REMINDER"
    and "task_text (user_data w) = Some txt" and "task_priority (user_data w) = Some p"
  shows "snd (process_update e u (Text r) w) =
      \<lparr>conv = None, user_data = clear,
       task_manager = snd (add_task (task_manager w) (strftime e (now_created e)) u txt p
                             (reminder_time e r))\<rparr>"
  using assms(1)
  by (simp add: set_reminder_draft [OF assms(2) assms(3)] in_conversation_def error_handler_def)

lemma dialogue_run:
  assumes "conv w = None" and "p \<in> set PRIORITIES"
  shows "run u [(e1, Command CmdAdd), (e2, Text t), (e3, Text p), (e4, Text r)] w =
      \<lparr>conv = None, user_data = clear,
       task_manager = snd (add_task (task_manager w) (strftime e4 (now_created e4)) u t p
                             (reminder_time e4 r))\<rparr>"
proof -
  let ?w1 = "\<lparr>conv = Some ADD_TASK, user_data = user_data w, task_manager = task_manager w\<rparr>"
  let ?w2 = "\<lparr>conv = Some SET_PRIORITY, user_data = (user_data w)\<lparr>task_text := Some t\<rparr>,
              task_manager = task_manager w\<rparr>"
  let ?w3 = "\<lparr>conv = Some SET_REMINDER,
              user_data = (user_data w)\<lparr>task_text := Some t, task_priority := Some p\<rparr>,
              task_manager = task_manager w\<rparr>"
  have 1: "snd (process_update e1 u (Command CmdAdd) w) = ?w1"
    using assms(1) by (simp add: add_task_start_def in_conversation_def error_handler_def)
  have 2: "snd (process_update e2 u (Text t) ?w1) = ?w2"
    by (simp add: add_task_text_def in_conversation_def error_handler_def)
  have 3: "snd (process_update e3 u (Text p) ?w2) = ?w3"
    using assms(2) by (simp add: set_priority_def in_conversation_def error_handler_def)
  have 4: "snd (process_update e4 u (Text r) ?w3) =
      \<lparr>conv = None, user_data = clear,
       task_manager = snd (add_task (task_manager w) (strftime e4 (now_created e4)) u t p
                             (reminder_time e4 r))\<rparr>"
    using reminder_step_world [of ?w3 t p e4 u r] by simp
  show ?thesis
    by (simp only: run.simps 1 2 3 4)
qed

text \<open>
  Claim C8, as stated, fails: the start of a creation dialogue discards nothing.
  \<^verbatim>\<open>add_task_start\<close> returns the session data as it found them, so a draft left behind
  is still there when \<^verbatim>\<open>/add\<close> has opened the dialogue; and a \<^verbatim>\<open>/add\<close> sent while a
  dialogue is open (here after the text "Buy milk") leaves the dialogue waiting for the
  priority, the text still in the draft.
\<close>

theorem start_keeps_draft_counterexample:
  "task_text draft_milk = Some (ascii ''Buy milk'')
   \<and> add_task_start draft_milk empty_store = ([AskText], draft_milk, empty_store, Goto ADD_TASK)
   \<and> process_update env0 7 (Command CmdAdd) stale_world =
       ([AskText], \<lparr>conv = Some ADD_TASK, user_data = draft_milk, task_manager = empty_store\<rparr>)
   \<and> conv world_restart = Some SET_PRIORITY
   \<and> task_text (user_data world_restart) = Some (ascii ''Buy milk'')"
  by (simp add: draft_milk_def add_task_start_def stale_world_def world_restart_def idle_world_def
      in_conversation_def error_handler_def add_task_text_def)

text \<open>
  Claim C8, amended. \<^verbatim>\<open>add_task_start\<close> leaves the session data and the store as they
  are. While a dialogue is open \<^verbatim>\<open>/add\<close> is handled by no handler, so the open dialogue
  goes on and no second one starts. Still no field of an earlier draft reaches a later
  task: from a state with no dialogue open, the store and the conversation state after any
  sequence of updates do not depend on what the draft held; and the dialogue \<^verbatim>\<open>/add\<close>,
  text, priority, reminder creates the task with that text and that priority, whatever the
  draft held before.
\<close>

theorem dialogue_takes_own_fields:
  "add_task_start d s = ([AskText], d, s, Goto ADD_TASK)
   \<and> (conv w \<noteq> None \<longrightarrow> process_update e u (Command CmdAdd) w = ([], w))
   \<and> (conv w = None \<and> conv w' = None \<and> task_manager w = task_manager w'
        \<and> awaiting_complete (user_data w) = awaiting_complete (user_data w')
        \<and> awaiting_delete (user_data w) = awaiting_delete (user_data w') \<longrightarrow>
          task_manager (run u evs w) = task_manager (run u evs w')
          \<and> conv (run u evs w) = conv (run u evs w'))
   \<and> (conv w = None \<and> p \<in> set PRIORITIES \<longrightarrow>
        conv (run u [(e1, Command CmdAdd), (e2, Text t), (e3, Text p), (e4, Text r)] w) = None
        \<and> user_data (run u [(e1, Command CmdAdd), (e2, Text t), (e3, Text p), (e4, Text r)] w)
            = clear
        \<and> user_list
            (task_manager (run u [(e1, Command CmdAdd), (e2, Text t), (e3, Text p), (e4, Text r)] w))
            u =
          user_list (task_manager w) u @
            [\<lparr>t_id = int (length (user_list (task_manager w) u)) + 1, t_text = t,
              t_priority = Some p, t_created_at = strftime e4 (now_created e4),
              t_completed = False, t_reminder = reminder_time e4 r\<rparr>])"
proof (intro conjI impI)
  show "add_task_start d s = ([AskText], d, s, Goto ADD_TASK)"
    by (simp add: add_task_start_def)
next
  assume "conv w \<noteq> None"
  then show "process_update e u (Command CmdAdd) w = ([], w)"
    by (cases "conv w") simp_all
next
  assume h: "conv w = None \<and> conv w' = None \<and> task_manager w = task_manager w'
        \<and> awaiting_complete (user_data w) = awaiting_complete (user_data w')
        \<and> awaiting_delete (user_data w) = awaiting_delete (user_data w')"
  then have "agree w w'"
    by (simp add: agree_def flags_eq_def draft_eq_def)
  then have r: "agree (run u evs w) (run u evs w')"
    by (rule agree_run)
  from r show "task_manager (run u evs w) = task_manager (run u evs w')"
    by (simp add: agree_def)
  from r show "conv (run u evs w) = conv (run u evs w')"
    by (simp add: agree_def)
next
  assume h: "conv w = None \<and> p \<in> set PRIORITIES"
  then have d: "run u [(e1, Command CmdAdd), (e2, Text t), (e3, Text p), (e4, Text r)] w =
      \<lparr>conv = None, user_data = clear,
       task_manager = snd (add_task (task_manager w) (strftime e4 (now_created e4)) u t p
                             (reminder_time e4 r))\<rparr>"
    by (simp only: dialogue_run)
  show "conv (run u [(e1, Command CmdAdd), (e2, Text t), (e3, Text p), (e4, Text r)] w) = None"
    by (simp only: d world.simps)
  show "user_data (run u [(e1, Command CmdAdd), (e2, Text t), (e3, Text p), (e4, Text r)] w) = clear"
    by (simp only: d world.simps)
  show "user_list
            (task_manager (run u [(e1, Command CmdAdd), (e2, Text t), (e3, Text p), (e4, Text r)] w))
            u =
          user_list (task_manager w) u @
            [\<lparr>t_id = int (length (user_list (task_manager w) u)) + 1, t_text = t,
              t_priority = Some p, t_created_at = strftime e4 (now_created e4),
              t_completed = False, t_reminder = reminder_time e4 r\<rparr>]"
    by (simp only: d world.simps add_task_list add_task_fst)
qed


theorem dialogue_takes_own_fields_witness:
  "conv world_milk \<noteq> None
   \<and> process_update env0 7 (Command CmdAdd) world_milk = ([], world_milk)
   \<and> conv stale_world = None \<and> conv idle_world = None
   \<and> task_manager stale_world = task_manager idle_world
   \<and> awaiting_complete (user_data stale_world) = awaiting_complete (user_data idle_world)
   \<and> awaiting_delete (user_data stale_world) = awaiting_delete (user_data idle_world)
   \<and> task_text (user_data stale_world) = Some (ascii ''Buy milk'')
   \<and> task_manager (run 7 dialogue_tea stale_world) = task_manager (run 7 dialogue_tea idle_world)
   \<and> HIGH \<in> set PRIORITIES
   \<and> user_list (task_manager (run 7 dialogue_tea stale_world)) 7 = [task_tea]"
proof -
  have m: "conv world_milk \<noteq> None"
    by (simp add: world_milk_def)
  have i: "conv stale_world = None" "conv idle_world = None"
    "task_manager stale_world = task_manager idle_world"
    "awaiting_complete (user_data stale_world) = awaiting_complete (user_data idle_world)"
    "awaiting_delete (user_data stale_world) = awaiting_delete (user_data idle_world)"
    by (simp_all add: stale_world_def idle_world_def draft_milk_def clear_def)
  have x: "task_text (user_data stale_world) = Some (ascii ''Buy milk'')"
    by (simp add: stale_world_def draft_milk_def)
  have n: "user_list (task_manager stale_world) 7 = []"
    by (simp add: stale_world_def user_list_def empty_store_def)
  have p: "HIGH \<in> set PRIORITIES"
    by (simp add: PRIORITIES_def)
  have l: "reminder_time env0 (ascii ''later'') = None"
    by (simp add: reminder_time_def ascii_def IN_1_HOUR_def IN_3_HOURS_def TOMORROW_def
        IN_A_WEEK_def)
  note milk = dialogue_takes_own_fields [where w = world_milk and e = env0 and u = 7]
  note tea = dialogue_takes_own_fields [where w = stale_world and w' = idle_world and u = 7
      and evs = dialogue_tea and p = HIGH and ?e1.0 = env0 and ?e2.0 = env0 and ?e3.0 = env0
      and ?e4.0 = env0 and t = "ascii ''Tea''" and r = "ascii ''later''"]
  from milk m have a: "process_update env0 7 (Command CmdAdd) world_milk = ([], world_milk)"
    by blast
  from tea i have b:
    "task_manager (run 7 dialogue_tea stale_world) = task_manager (run 7 dialogue_tea idle_world)"
    by blast
  from tea i(1) p have "user_list (task_manager (run 7 dialogue_tea stale_world)) 7 =
      user_list (task_manager stale_world) 7 @
        [\<lparr>t_id = int (length (user_list (task_manager stale_world) 7)) + 1, t_text = ascii ''Tea'',
          t_priority = Some HIGH, t_created_at = strftime env0 (now_created env0),
          t_completed = False, t_reminder = reminder_time env0 (ascii ''later'')\<rparr>]"
    unfolding dialogue_tea_def by blast
  then have c: "user_list (task_manager (run 7 dialogue_tea stale_world)) 7 = [task_tea]"
    by (simp add: n l strftime_env0 task_tea_def del: run.simps)
  from m a i x b p c show ?thesis
    by (simp del: run.simps process_update.simps)
qed

text \<open>
  The reminder step finds its draft: in every run that starts with no dialogue open, a
  world in the state \<open>SET_REMINDER\<close> holds a text and a priority, so there
  \<^verbatim>\<open>set_reminder\<close> does not raise \<^verbatim>\<open>KeyError\<close>.
\<close>

lemma standalone_draft_entered:
  assumes "draft_entered w" and "keeps_draft out (user_data w)"
  shows "draft_entered (snd (standalone w out))"
  using assms by (cases out) (simp add: standalone_def draft_entered_def keeps_draft_def)

lemma draft_entered_step:
  assumes a: "draft_entered w"
  shows "draft_entered (snd (process_update e u upd w))"
proof (cases upd)
  case (Command cmd)
  show ?thesis
  proof (cases cmd)
    case CmdStart
    with Command standalone_draft_entered [OF a start_frame(1)] show ?thesis by simp
  next
    case CmdHelp
    with Command standalone_draft_entered [OF a help_frame(1)] show ?thesis by simp
  next
    case CmdAdd
    with Command a show ?thesis
      by (cases "conv w")
        (simp_all add: add_task_start_def in_conversation_def error_handler_def draft_entered_def)
  next
    case CmdList
    with Command standalone_draft_entered [OF a list_tasks_frame(1)] show ?thesis
      by (cases "conv w") simp_all
  next
    case CmdComplete
    with Command standalone_draft_entered [OF a complete_task_handler_frame(1)] show ?thesis
      by (cases "conv w") simp_all
  next
    case CmdDelete
    with Command standalone_draft_entered [OF a delete_task_handler_frame(1)] show ?thesis
      by (cases "conv w") simp_all
  next
    case CmdCancel
    with Command show ?thesis
      by (cases "conv w")
        (simp_all add: cancel_def standalone_def in_conversation_def error_handler_def
          draft_entered_def)
  next
    case CmdOther
    with Command a show ?thesis
      by (cases "conv w") simp_all
  qed
next
  case (Text s)
  note h = standalone_draft_entered [OF a handle_task_action_frame(1)]
  show ?thesis
  proof (cases "conv w")
    case None
    with Text h show ?thesis by simp
  next
    case (Some st)
    show ?thesis
    proof (cases st)
      case CHOOSING_ACTION
      with Some Text h show ?thesis by simp
    next
      case ADD_TASK
      with Some Text show ?thesis
        by (simp add: add_task_text_def in_conversation_def error_handler_def draft_entered_def)
    next
      case SET_PRIORITY
      with Some Text a show ?thesis
        by (simp add: set_priority_def in_conversation_def error_handler_def draft_entered_def)
    next
      case SET_REMINDER
      with Some Text a show ?thesis
        by (auto simp: set_reminder_def in_conversation_def error_handler_def draft_entered_def
            split_def Let_def)
    qed
  qed
qed

lemma draft_entered_run: "draft_entered w \<Longrightarrow> draft_entered (run u evs w)"
proof (induction evs arbitrary: w)
  case Nil
  then show ?case by simp
next
  case (Cons a evs)
  obtain e upd where a: "a = (e, upd)" by (cases a)
  from Cons.IH [OF draft_entered_step [OF Cons.prems, of e u upd]] show ?case
    by (simp add: a)
qed

lemma reminder_state_has_draft:
  assumes "conv w = None" and "conv (run u evs w) = Some SET_REMINDER"
  shows "\<exists>txt p. task_text (user_data (run u evs w)) = Some txt
    \<and> task_priority (user_data (run u evs w)) = Some p"
proof -
  from assms(1) have "draft_entered w"
    by (simp add: draft_entered_def)
  then have "draft_entered (run u evs w)"
    by (rule draft_entered_run)
  with assms(2) show ?thesis
    by (simp add: draft_entered_def)
qed

section \<open>Pending actions and the open dialogue\<close>

lemma to_int_env0:
  "to_int env0 (ascii ''abc'') = None" "to_int env0 (ascii ''1'') = Some 1"
  "to_int env0 (ascii ''9'') = Some 9"
  by (simp_all add: env0_def ascii_int_def ascii_def)

lemma tasks_A_B:
  "\<not> t_completed task_A" "\<not> t_completed task_B" "t_priority task_A \<noteq> None"
  "t_priority task_B \<noteq> None" "t_id task_A = 1" "t_id task_B = 2"
  by (simp_all add: task_A_def task_B_def)

lemma complete_task_handler_store_AB:
  "complete_task_handler 7 clear store_AB =
     ([ChooseToComplete [task_A, task_B], SendNumber], awaiting_completion, store_AB, ReturnNone)"
  by (simp add: complete_task_handler_def get_user_tasks_def tasks_store_AB tasks_A_B
      awaiting_completion_def)

lemma world_flag_dialogue_eq:
  "world_flag_dialogue =
     \<lparr>conv = Some ADD_TASK, user_data = awaiting_completion, task_manager = store_AB\<rparr>"
  by (simp add: world_flag_dialogue_def complete_task_handler_store_AB standalone_def
      in_conversation_def error_handler_def add_task_start_def)

lemma world_flag_priority_eq:
  "world_flag_priority =
     \<lparr>conv = Some SET_PRIORITY,
      user_data = awaiting_completion\<lparr>task_text := Some (ascii ''1'')\<rparr>,
      task_manager = store_AB\<rparr>"
  by (simp add: world_flag_priority_def world_flag_dialogue_eq add_task_text_def
      in_conversation_def error_handler_def)

text \<open>
  Claim C7, as stated, fails. User 7, holding A and B, sends \<^verbatim>\<open>/complete\<close> and then
  \<^verbatim>\<open>/add\<close>: the completion flag is set and the dialogue waits for the task text. The next
  text message "1" is a number and task 1 exists, so \<^verbatim>\<open>complete_task\<close> would succeed and
  mark A. Instead the message goes to the dialogue: "1" becomes the text of the draft, the
  store is as before with A not completed, and the flag is still set.
\<close>

theorem pending_action_counterexample:
  "conv world_flag_dialogue = Some ADD_TASK
   \<and> awaiting_complete (user_data world_flag_dialogue)
   \<and> task_manager world_flag_dialogue = store_AB
   \<and> to_int env0 (ascii ''1'') = Some 1
   \<and> fst (complete_task store_AB 7 1)
   \<and> user_list (snd (complete_task store_AB 7 1)) 7 = [task_A\<lparr>t_completed := True\<rparr>, task_B]
   \<and> process_update env0 7 (Text (ascii ''1'')) world_flag_dialogue =
       ([AskPriority], world_flag_priority)
   \<and> awaiting_complete (user_data world_flag_priority)
   \<and> task_text (user_data world_flag_priority) = Some (ascii ''1'')
   \<and> task_manager world_flag_priority = store_AB
   \<and> user_list store_AB 7 = [task_A, task_B]
   \<and> \<not> t_completed task_A"
proof -
  have "process_update env0 7 (Text (ascii ''1'')) world_flag_dialogue =
      ([AskPriority], world_flag_priority)"
    by (simp add: world_flag_priority_def world_flag_dialogue_eq add_task_text_def
        in_conversation_def error_handler_def)
  moreover have "fst (complete_task store_AB 7 1)"
    by (simp add: complete_task_fst user_list_store_AB tasks_A_B)
  moreover have "user_list (snd (complete_task store_AB 7 1)) 7 =
      [task_A\<lparr>t_completed := True\<rparr>, task_B]"
    by (simp add: complete_task_list user_list_store_AB tasks_A_B)
  ultimately show ?thesis
    by (simp add: world_flag_dialogue_eq world_flag_priority_eq awaiting_completion_def
        to_int_env0 user_list_store_AB tasks_A_B del: process_update.simps)
qed


lemma world_eta:
  "\<lparr>conv = conv w, user_data = user_data w, task_manager = task_manager w\<rparr> = (w::world)"
  by simp

lemma idle_text_failure:
  "conv w = None \<Longrightarrow> to_int e text = None \<Longrightarrow>
     process_update e u (Text text) w = ([BadNumber], w)"
  by (simp add: handle_task_action_failure standalone_def error_handler_def)

lemma idle_text_complete:
  "conv w = None \<Longrightarrow> to_int e text = Some n \<Longrightarrow> awaiting_complete (user_data w) \<Longrightarrow>
     process_update e u (Text text) w =
       ([if fst (complete_task (task_manager w) u n) then Completed n else NotFound n],
        \<lparr>conv = None, user_data = (user_data w)\<lparr>awaiting_complete := False\<rparr>,
         task_manager = snd (complete_task (task_manager w) u n)\<rparr>)"
  by (simp add: handle_task_action_complete standalone_def error_handler_def)

lemma idle_text_delete:
  "conv w = None \<Longrightarrow> to_int e text = Some n \<Longrightarrow> \<not> awaiting_complete (user_data w) \<Longrightarrow>
   awaiting_delete (user_data w) \<Longrightarrow>
     process_update e u (Text text) w =
       ([if fst (delete_task (task_manager w) u n) then Deleted n else NotFound n],
        \<lparr>conv = None, user_data = (user_data w)\<lparr>awaiting_delete := False\<rparr>,
         task_manager = snd (delete_task (task_manager w) u n)\<rparr>)"
  by (simp add: handle_task_action_delete standalone_def error_handler_def)

lemma dialogue_text_step:
  "conv w = Some ADD_TASK \<Longrightarrow>
     process_update e u (Text text) w =
       ([AskPriority],
        \<lparr>conv = Some SET_PRIORITY, user_data = (user_data w)\<lparr>task_text := Some text\<rparr>,
         task_manager = task_manager w\<rparr>)"
  by (simp add: add_task_text_def in_conversation_def error_handler_def)

lemma dialogue_priority_step:
  "conv w = Some SET_PRIORITY \<Longrightarrow>
     task_manager (snd (process_update e u (Text text) w)) = task_manager w
     \<and> awaiting_complete (user_data (snd (process_update e u (Text text) w))) =
         awaiting_complete (user_data w)
     \<and> awaiting_delete (user_data (snd (process_update e u (Text text) w))) =
         awaiting_delete (user_data w)"
  by (simp add: set_priority_def in_conversation_def error_handler_def)

text \<open>
  Claim C7, amended. With a pending-action flag set and no creation dialogue open, the
  next text message is handled by \<^verbatim>\<open>handle_task_action\<close>: when \<^verbatim>\<open>int\<close> fails, the world
  (flag and store) stays as it is; when it yields \<open>n\<close> and the completion flag is set,
  \<^verbatim>\<open>complete_task\<close> runs with \<open>n\<close> and the flag is removed, whether the task was found or
  not; when only the deletion flag is set, the same with \<^verbatim>\<open>delete_task\<close>. So much for the
  handler itself, whatever the session data and the store. While a creation dialogue is
  open the message goes to the step of the dialogue and is not read as a number: in the
  text step and in the priority step the store and both flags stay as they are, and the
  reminder step creates the task of the draft and clears the session data, flags
  included.
\<close>

theorem pending_action_resolution:
  "(conv w = None \<and> to_int e msg = None \<longrightarrow>
      process_update e u (Text msg) w = ([BadNumber], w))
   \<and> (conv w = None \<and> to_int e msg = Some n \<and> awaiting_complete (user_data w) \<longrightarrow>
      process_update e u (Text msg) w =
        ([if fst (complete_task (task_manager w) u n) then Completed n else NotFound n],
         \<lparr>conv = None, user_data = (user_data w)\<lparr>awaiting_complete := False\<rparr>,
          task_manager = snd (complete_task (task_manager w) u n)\<rparr>))
   \<and> (conv w = None \<and> to_int e msg = Some n \<and> \<not> awaiting_complete (user_data w)
        \<and> awaiting_delete (user_data w) \<longrightarrow>
      process_update e u (Text msg) w =
        ([if fst (delete_task (task_manager w) u n) then Deleted n else NotFound n],
         \<lparr>conv = None, user_data = (user_data w)\<lparr>awaiting_delete := False\<rparr>,
          task_manager = snd (delete_task (task_manager w) u n)\<rparr>))
   \<and> (to_int e msg = None \<longrightarrow>
      handle_task_action e u msg ud tm = ([BadNumber], ud, tm, ReturnNone))
   \<and> (to_int e msg = Some n \<and> awaiting_complete ud \<longrightarrow>
      handle_task_action e u msg ud tm =
        ([if fst (complete_task tm u n) then Completed n else NotFound n],
         ud\<lparr>awaiting_complete := False\<rparr>, snd (complete_task tm u n), ReturnNone))
   \<and> (to_int e msg = Some n \<and> \<not> awaiting_complete ud \<and> awaiting_delete ud \<longrightarrow>
      handle_task_action e u msg ud tm =
        ([if fst (delete_task tm u n) then Deleted n else NotFound n],
         ud\<lparr>awaiting_delete := False\<rparr>, snd (delete_task tm u n), ReturnNone))
   \<and> (conv w = Some ADD_TASK \<longrightarrow>
      process_update e u (Text msg) w =
        ([AskPriority],
         \<lparr>conv = Some SET_PRIORITY, user_data = (user_data w)\<lparr>task_text := Some msg\<rparr>,
          task_manager = task_manager w\<rparr>))
   \<and> (conv w = Some SET_PRIORITY \<longrightarrow>
      task_manager (snd (process_update e u (Text msg) w)) = task_manager w
      \<and> awaiting_complete (user_data (snd (process_update e u (Text msg) w))) =
          awaiting_complete (user_data w)
      \<and> awaiting_delete (user_data (snd (process_update e u (Text msg) w))) =
          awaiting_delete (user_data w))
   \<and> (conv w = Some SET_REMINDER \<and> task_text (user_data w) = Some body
        \<and> task_priority (user_data w) = Some p \<longrightarrow>
      user_data (snd (process_update e u (Text msg) w)) = clear
      \<and> user_list (task_manager (snd (process_update e u (Text msg) w))) u =
          user_list (task_manager w) u @
            [fst (add_task (task_manager w) (strftime e (now_created e)) u body p
                    (reminder_time e msg))])"
proof (intro conjI impI)
  assume "conv w = Some SET_REMINDER \<and> task_text (user_data w) = Some body
        \<and> task_priority (user_data w) = Some p"
  then have r: "snd (process_update e u (Text msg) w) =
      \<lparr>conv = None, user_data = clear,
       task_manager = snd (add_task (task_manager w) (strftime e (now_created e)) u body p
                             (reminder_time e msg))\<rparr>"
    by (simp only: reminder_step_world)
  show "user_data (snd (process_update e u (Text msg) w)) = clear"
    by (simp only: r world.simps)
  show "user_list (task_manager (snd (process_update e u (Text msg) w))) u =
          user_list (task_manager w) u @
            [fst (add_task (task_manager w) (strftime e (now_created e)) u body p
                    (reminder_time e msg))]"
    by (simp only: r world.simps add_task_list)
qed (simp_all add: idle_text_failure idle_text_complete idle_text_delete
    handle_task_action_failure handle_task_action_complete handle_task_action_delete
    dialogue_text_step dialogue_priority_step del: process_update.simps)


theorem pending_action_resolution_witness:
  "conv world_awaiting = None \<and> to_int env0 (ascii ''abc'') = None
   \<and> process_update env0 7 (Text (ascii ''abc'')) world_awaiting = ([BadNumber], world_awaiting)
   \<and> to_int env0 (ascii ''1'') = Some 1 \<and> awaiting_complete (user_data world_awaiting)
   \<and> process_update env0 7 (Text (ascii ''1'')) world_awaiting =
       ([Completed 1], \<lparr>conv = None, user_data = clear, task_manager = store_A_done\<rparr>)
   \<and> to_int env0 (ascii ''9'') = Some 9
   \<and> \<not> awaiting_complete awaiting_deletion \<and> awaiting_delete awaiting_deletion
   \<and> process_update env0 7 (Text (ascii ''9''))
         \<lparr>conv = None, user_data = awaiting_deletion, task_manager = store_AB\<rparr> =
       ([NotFound 9],
        \<lparr>conv = None, user_data = clear, task_manager = snd (delete_task store_AB 7 9)\<rparr>)
   \<and> handle_task_action env0 7 (ascii ''abc'') awaiting_completion store_AB =
       ([BadNumber], awaiting_completion, store_AB, ReturnNone)
   \<and> handle_task_action env0 7 (ascii ''1'') awaiting_completion store_AB =
       ([Completed 1], clear, store_A_done, ReturnNone)
   \<and> handle_task_action env0 7 (ascii ''9'') awaiting_deletion store_AB =
       ([NotFound 9], clear, snd (delete_task store_AB 7 9), ReturnNone)
   \<and> conv world_flag_dialogue = Some ADD_TASK
   \<and> process_update env0 7 (Text (ascii ''1'')) world_flag_dialogue =
       ([AskPriority], world_flag_priority)
   \<and> conv world_flag_priority = Some SET_PRIORITY
   \<and> awaiting_complete (user_data (snd (process_update env0 7 (Text (ascii ''9'')) world_flag_priority)))
   \<and> task_manager (snd (process_update env0 7 (Text (ascii ''9'')) world_flag_priority)) = store_AB
   \<and> conv world_milk = Some SET_REMINDER
   \<and> task_text (user_data world_milk) = Some (ascii ''Buy milk'')
   \<and> task_priority (user_data world_milk) = Some MEDIUM
   \<and> user_data (snd (process_update env0 7 (Text (ascii ''1'')) world_milk)) = clear
   \<and> user_list (task_manager (snd (process_update env0 7 (Text (ascii ''1'')) world_milk))) 7 =
       [task_milk None]"
proof -
  let ?del = "\<lparr>conv = None, user_data = awaiting_deletion, task_manager = store_AB\<rparr>"
  have c: "fst (complete_task store_AB 7 1)"
    by (simp add: complete_task_fst user_list_store_AB tasks_A_B)
  have d: "\<not> fst (delete_task store_AB 7 9)"
    by (simp add: delete_task_fst user_list_store_AB tasks_A_B)
  have f: "awaiting_complete awaiting_completion" "\<not> awaiting_complete awaiting_deletion"
    "awaiting_delete awaiting_deletion"
    "awaiting_completion\<lparr>awaiting_complete := False\<rparr> = clear"
    "awaiting_deletion\<lparr>awaiting_delete := False\<rparr> = clear"
    by (simp_all add: awaiting_completion_def awaiting_deletion_def clear_def)
  have a: "conv world_awaiting = None" "user_data world_awaiting = awaiting_completion"
    "task_manager world_awaiting = store_AB"
    by (simp_all add: world_awaiting_def)
  have dl: "conv ?del = None" "user_data ?del = awaiting_deletion" "task_manager ?del = store_AB"
    by simp_all
  have g: "conv world_flag_dialogue = Some ADD_TASK"
    "user_data world_flag_dialogue = awaiting_completion"
    "task_manager world_flag_dialogue = store_AB"
    by (simp_all add: world_flag_dialogue_eq)
  have h: "conv world_flag_priority = Some SET_PRIORITY"
    "awaiting_complete (user_data world_flag_priority)"
    "task_manager world_flag_priority = store_AB"
    by (simp_all add: world_flag_priority_eq awaiting_completion_def)
  have m: "conv world_milk = Some SET_REMINDER"
    "task_text (user_data world_milk) = Some (ascii ''Buy milk'')"
    "task_priority (user_data world_milk) = Some MEDIUM"
    "user_list (task_manager world_milk) 7 = []"
    by (simp_all add: world_milk_def draft_milk_def user_list_def empty_store_def)
  have l: "reminder_time env0 (ascii ''1'') = None"
    by (simp add: reminder_time_def ascii_def IN_1_HOUR_def IN_3_HOURS_def TOMORROW_def
        IN_A_WEEK_def)
  note T = pending_action_resolution
  from T [where w = world_awaiting and e = env0 and msg = "ascii ''abc''" and u = 7
      and ud = awaiting_completion and tm = store_AB] a(1) to_int_env0(1)
  have 1: "process_update env0 7 (Text (ascii ''abc'')) world_awaiting = ([BadNumber], world_awaiting)"
    "handle_task_action env0 7 (ascii ''abc'') awaiting_completion store_AB =
       ([BadNumber], awaiting_completion, store_AB, ReturnNone)"
    by blast+
  from T [where w = world_awaiting and e = env0 and msg = "ascii ''1''" and u = 7 and n = 1
      and ud = awaiting_completion and tm = store_AB] a to_int_env0(2) f(1)
  have "process_update env0 7 (Text (ascii ''1'')) world_awaiting =
       ([if fst (complete_task store_AB 7 1) then Completed 1 else NotFound 1],
        \<lparr>conv = None, user_data = awaiting_completion\<lparr>awaiting_complete := False\<rparr>,
         task_manager = snd (complete_task store_AB 7 1)\<rparr>)"
    "handle_task_action env0 7 (ascii ''1'') awaiting_completion store_AB =
       ([if fst (complete_task store_AB 7 1) then Completed 1 else NotFound 1],
        awaiting_completion\<lparr>awaiting_complete := False\<rparr>, snd (complete_task store_AB 7 1),
        ReturnNone)"
    by (simp_all del: process_update.simps)
  then have 2: "process_update env0 7 (Text (ascii ''1'')) world_awaiting =
       ([Completed 1], \<lparr>conv = None, user_data = clear, task_manager = store_A_done\<rparr>)"
    "handle_task_action env0 7 (ascii ''1'') awaiting_completion store_AB =
       ([Completed 1], clear, store_A_done, ReturnNone)"
    by (simp_all add: c f store_A_done_def del: process_update.simps)
  from T [where w = "?del" and e = env0 and msg = "ascii ''9''" and u = 7 and n = 9
      and ud = awaiting_deletion and tm = store_AB] to_int_env0(3) f(2) f(3)
  have "process_update env0 7 (Text (ascii ''9'')) ?del =
       ([if fst (delete_task store_AB 7 9) then Deleted 9 else NotFound 9],
        \<lparr>conv = None, user_data = awaiting_deletion\<lparr>awaiting_delete := False\<rparr>,
         task_manager = snd (delete_task store_AB 7 9)\<rparr>)"
    "handle_task_action env0 7 (ascii ''9'') awaiting_deletion store_AB =
       ([if fst (delete_task store_AB 7 9) then Deleted 9 else NotFound 9],
        awaiting_deletion\<lparr>awaiting_delete := False\<rparr>, snd (delete_task store_AB 7 9),
        ReturnNone)"
    by (simp_all del: process_update.simps)
  then have 3: "process_update env0 7 (Text (ascii ''9'')) ?del =
       ([NotFound 9],
        \<lparr>conv = None, user_data = clear, task_manager = snd (delete_task store_AB 7 9)\<rparr>)"
    "handle_task_action env0 7 (ascii ''9'') awaiting_deletion store_AB =
       ([NotFound 9], clear, snd (delete_task store_AB 7 9), ReturnNone)"
    by (simp_all add: d f del: process_update.simps)
  from T [where w = world_flag_dialogue and e = env0 and msg = "ascii ''1''" and u = 7] g(1)
  have "process_update env0 7 (Text (ascii ''1'')) world_flag_dialogue =
        ([AskPriority],
         \<lparr>conv = Some SET_PRIORITY,
          user_data = (user_data world_flag_dialogue)\<lparr>task_text := Some (ascii ''1'')\<rparr>,
          task_manager = task_manager world_flag_dialogue\<rparr>)"
    by blast
  then have 4: "process_update env0 7 (Text (ascii ''1'')) world_flag_dialogue =
       ([AskPriority], world_flag_priority)"
    by (simp add: g world_flag_priority_eq del: process_update.simps)
  from T [where w = world_flag_priority and e = env0 and msg = "ascii ''9''" and u = 7] h(1)
  have "task_manager (snd (process_update env0 7 (Text (ascii ''9'')) world_flag_priority)) =
      task_manager world_flag_priority
      \<and> awaiting_complete (user_data (snd (process_update env0 7 (Text (ascii ''9'')) world_flag_priority))) =
          awaiting_complete (user_data world_flag_priority)"
    by blast
  then have 5:
    "awaiting_complete (user_data (snd (process_update env0 7 (Text (ascii ''9'')) world_flag_priority)))"
    "task_manager (snd (process_update env0 7 (Text (ascii ''9'')) world_flag_priority)) = store_AB"
    by (simp_all add: h del: process_update.simps)
  from T [where w = world_milk and e = env0 and msg = "ascii ''1''" and u = 7
      and body = "ascii ''Buy milk''" and p = MEDIUM] m(1) m(2) m(3)
  have "user_data (snd (process_update env0 7 (Text (ascii ''1'')) world_milk)) = clear
      \<and> user_list (task_manager (snd (process_update env0 7 (Text (ascii ''1'')) world_milk))) 7 =
          user_list (task_manager world_milk) 7 @
            [fst (add_task (task_manager world_milk) (strftime env0 (now_created env0)) 7
                    (ascii ''Buy milk'') MEDIUM (reminder_time env0 (ascii ''1'')))]"
    by blast
  then have 6: "user_data (snd (process_update env0 7 (Text (ascii ''1'')) world_milk)) = clear"
    "user_list (task_manager (snd (process_update env0 7 (Text (ascii ''1'')) world_milk))) 7 =
       [task_milk None]"
    by (simp_all add: m l add_task_fst strftime_env0 task_milk_def del: process_update.simps)
  from a(1) a(2) f(1) to_int_env0 f(2) f(3) 1 2 3 g(1) 4 h(1) 5 m(1) m(2) m(3) 6
  show ?thesis
    by (simp del: process_update.simps)
qed

end
